theory Spec2Isabelle
  imports Complex_Main
begin

section \<open>JavaScript values as the script sees them\<close>

text \<open>
  The page script \<^verbatim>\<open>static/script.js\<close> exchanges JSON with the server. A parsed JSON
  document is a \<open>jsval\<close>; \<open>JUndefined\<close> is what reading a missing property gives.
  A JSON number denotes a finite value, kept here as the exact real number it stands for.
  An object is the list of its properties in insertion order, one value per name.
\<close>

datatype jsval =
    JUndefined
  | JNull
  | JBool bool
  | JNum real
  | JStr string
  | JArr "jsval list"
  | JObj "(string \<times> jsval) list"

text \<open>
  What a \<^verbatim>\<open>try\<close> block of the script can catch: a rejected \<^verbatim>\<open>fetch\<close>, a body that
  \<^verbatim>\<open>response.json()\<close> cannot parse, a property read or method call on a value that does
  not have it, and a missing global.
\<close>

datatype exn = FetchRejected | BodyNotJson | TypeError | ReferenceError

definition bindE :: "exn + 'a \<Rightarrow> ('a \<Rightarrow> exn + 'b) \<Rightarrow> exn + 'b" where
  "bindE m f = (case m of Inl e \<Rightarrow> Inl e | Inr v \<Rightarrow> f v)"

text \<open>\<^verbatim>\<open>v.name\<close>: a TypeError on \<^verbatim>\<open>null\<close> and \<^verbatim>\<open>undefined\<close>, the property of an
  object, and \<^verbatim>\<open>undefined\<close> on every other value (none of the names the script reads is
  a built-in property of a string, number, boolean or array).\<close>

fun get_prop :: "jsval \<Rightarrow> string \<Rightarrow> exn + jsval" where
  "get_prop JUndefined name = Inl TypeError"
| "get_prop JNull name = Inl TypeError"
| "get_prop (JObj kvs) name = (case map_of kvs name of None \<Rightarrow> Inr JUndefined | Some v \<Rightarrow> Inr v)"
| "get_prop v name = Inr JUndefined"

text \<open>The operand test of \<^verbatim>\<open>||\<close> and \<^verbatim>\<open>!\<close>.\<close>

fun truthy :: "jsval \<Rightarrow> bool" where
  "truthy JUndefined = False"
| "truthy JNull = False"
| "truthy (JBool b) = b"
| "truthy (JNum x) = (x \<noteq> 0)"
| "truthy (JStr s) = (s \<noteq> [])"
| "truthy v = True"

definition js_or :: "jsval \<Rightarrow> jsval \<Rightarrow> jsval" where
  "js_or a b = (if truthy a then a else b)"

subsection \<open>Numbers to text\<close>

fun decimal :: "nat \<Rightarrow> string" where
  "decimal n = (if n < 10 then [''0123456789'' ! n]
                else decimal (n div 10) @ [''0123456789'' ! (n mod 10)])"

declare decimal.simps [simp del]

text \<open>
  \<^verbatim>\<open>Number.prototype.toFixed(f)\<close> on the exact value \<open>x\<close> of the number: the integer
  \<open>n\<close> nearest to \<open>|x| * 10^f\<close>, the larger one on a tie, printed with \<open>f\<close> digits
  after the point. From \<open>10^21\<close> on the standard hands over to the general
  number-to-string conversion, which depends on the binary64 neighbours of the value
  and is the parameter \<open>ns\<close> of everything below.
\<close>

definition fixed_units :: "nat \<Rightarrow> real \<Rightarrow> nat" where
  "fixed_units f x = nat \<lfloor>x * 10 ^ f + 1 / 2\<rfloor>"

definition to_fixed :: "(real \<Rightarrow> string) \<Rightarrow> nat \<Rightarrow> real \<Rightarrow> string" where
  "to_fixed ns f x =
     (let s = (if x < 0 then ''-'' else ''''); a = \<bar>x\<bar> in
      if 10 ^ 21 \<le> a then s @ ns a
      else
        let n = fixed_units f a;
            m = (if n = 0 then ''0'' else decimal n)
        in if f = 0 then s @ m
           else
             let m' = (if length m \<le> f then replicate (f + 1 - length m) (CHR ''0'') @ m else m);
                 k = length m'
             in s @ take (k - f) m' @ ''.'' @ drop (k - f) m')"

text \<open>\<^verbatim>\<open>v.toFixed(f)\<close> for an arbitrary value: only a number has the method.\<close>

fun toFixed :: "(real \<Rightarrow> string) \<Rightarrow> jsval \<Rightarrow> nat \<Rightarrow> exn + string" where
  "toFixed ns (JNum x) f = Inr (to_fixed ns f x)"
| "toFixed ns v f = Inl TypeError"

text \<open>The string conversion of template literals and of assignments to DOM strings.\<close>

fun join_comma :: "string list \<Rightarrow> string" where
  "join_comma [] = ''''"
| "join_comma [x] = x"
| "join_comma (x # xs) = x @ '','' @ join_comma xs"

fun to_string :: "(real \<Rightarrow> string) \<Rightarrow> jsval \<Rightarrow> string" where
  "to_string ns JUndefined = ''undefined''"
| "to_string ns JNull = ''null''"
| "to_string ns (JBool b) = (if b then ''true'' else ''false'')"
| "to_string ns (JNum x) = ns x"
| "to_string ns (JStr s) = s"
| "to_string ns (JArr xs) =
     join_comma (map (\<lambda>v. if v = JUndefined \<or> v = JNull then '''' else to_string ns v) xs)"
| "to_string ns (JObj kvs) = ''[object Object]''"

text \<open>Assigning to \<^verbatim>\<open>input.value\<close>: \<^verbatim>\<open>null\<close> becomes the empty string.\<close>

definition dom_string :: "(real \<Rightarrow> string) \<Rightarrow> jsval \<Rightarrow> string" where
  "dom_string ns v = (if v = JNull then '''' else to_string ns v)"

text \<open>\<^verbatim>\<open>String.prototype.toUpperCase\<close> on the ASCII letters.\<close>

definition upper_char :: "char \<Rightarrow> char" where
  "upper_char c =
     (case map_of (zip ''abcdefghijklmnopqrstuvwxyz'' ''ABCDEFGHIJKLMNOPQRSTUVWXYZ'') c of
        Some u \<Rightarrow> u
      | None \<Rightarrow> c)"

definition toUpperCase :: "string \<Rightarrow> string" where
  "toUpperCase s = map upper_char s"

section \<open>The page\<close>

text \<open>
  An element carries the four things the script reads or writes on elements: \<^verbatim>\<open>value\<close>,
  \<^verbatim>\<open>textContent\<close>, \<^verbatim>\<open>disabled\<close> and \<^verbatim>\<open>classList\<close>.
\<close>

record element =
  el_value :: string
  textContent :: string
  disabled :: bool
  classList :: "string set"

text \<open>A \<^verbatim>\<open>.custom-option\<close> with its \<^verbatim>\<open>data-value\<close> attribute (\<^verbatim>\<open>dataset.value\<close> is
  \<^verbatim>\<open>undefined\<close> without one); the trigger of the custom dropdown with its
  \<^verbatim>\<open>.custom-select__trigger\<close> descendant, if it has one.\<close>

record option_el = element +
  dataset_value :: "string option"

record trigger_el = element +
  trigger_label :: "element option"

definition set_value :: "string \<Rightarrow> 'a element_scheme \<Rightarrow> 'a element_scheme" where
  "set_value v e = e\<lparr>el_value := v\<rparr>"

definition set_text :: "string \<Rightarrow> 'a element_scheme \<Rightarrow> 'a element_scheme" where
  "set_text t e = e\<lparr>textContent := t\<rparr>"

definition set_disabled :: "bool \<Rightarrow> 'a element_scheme \<Rightarrow> 'a element_scheme" where
  "set_disabled b e = e\<lparr>disabled := b\<rparr>"

definition add_class :: "string \<Rightarrow> 'a element_scheme \<Rightarrow> 'a element_scheme" where
  "add_class c e = e\<lparr>classList := insert c (classList e)\<rparr>"

definition remove_class :: "string \<Rightarrow> 'a element_scheme \<Rightarrow> 'a element_scheme" where
  "remove_class c e = e\<lparr>classList := classList e - {c}\<rparr>"

definition toggle_class :: "string \<Rightarrow> 'a element_scheme \<Rightarrow> 'a element_scheme" where
  "toggle_class c e = (if c \<in> classList e then remove_class c e else add_class c e)"

text \<open>A Chart.js chart as far as the script determines it: the labels, the named data
  series, and whether \<^verbatim>\<open>destroy()\<close> was called on it. Colours and axis options are
  constants of the script and are left out.\<close>

record chart =
  chart_labels :: jsval
  chart_series :: "(string \<times> jsval) list"
  destroyed :: bool

text \<open>
  The state the script works on. The markup of the page is not part of the sources, so
  the page is a parameter of everything below. The elements the script dereferences
  without a test are fields of type \<open>element\<close>; the ones it guards with
  \<^verbatim>\<open>if (x)\<close> (\<^verbatim>\<open>convergenceBtn\<close>, \<^verbatim>\<open>q\<close>, \<^verbatim>\<open>methodSelect\<close>, \<^verbatim>\<open>volSource\<close>,
  \<^verbatim>\<open>methodSelectTrigger\<close>, \<^verbatim>\<open>convergenceSection\<close>) are optional.
  On a page that lacks one of the former the script throws a TypeError where it
  dereferences it; such a page is not modelled.
  \<^verbatim>\<open>methodSelect\<close> and \<^verbatim>\<open>methodHiddenInput\<close> are both \<^verbatim>\<open>getElementById('method')\<close>,
  one element. Elements found by different ids or selectors are different elements.
  \<open>alerts\<close> and \<open>console\<close> record the calls of \<^verbatim>\<open>alert\<close> and \<^verbatim>\<open>console.error\<close>;
  \<open>chartLoaded\<close> says whether the global \<^verbatim>\<open>Chart\<close> is defined.
\<close>

record page =
  fetchBtn :: element
  simulateBtn :: element
  convergenceBtn :: "element option"
  tickerInput :: element
  S0_el :: element
  K_el :: element
  T_el :: element
  sigma_el :: element
  r_el :: element
  steps_el :: element
  q_el :: "element option"
  methodSelect :: "element option"
  volSource :: "element option"
  methodSelectTrigger :: "trigger_el option"
  customOptions :: "option_el list"
  currencyLabels :: "element list"
  currentCurrency :: jsval
  chartLoaded :: bool
  chartInstance :: "chart option"
  convergenceChartInstance :: "chart option"
  results :: element
  convergenceSection :: "element option"
  bsCall :: element
  bsPut :: element
  mcCall :: element
  mcPut :: element
  mcCallErr :: element
  mcPutErr :: element
  alerts :: "jsval list"
  console :: "exn list"

definition alert :: "jsval \<Rightarrow> page \<Rightarrow> page" where
  "alert v s = s\<lparr>alerts := alerts s @ [v]\<rparr>"

definition console_error :: "exn \<Rightarrow> page \<Rightarrow> page" where
  "console_error e s = s\<lparr>console := console s @ [e]\<rparr>"

subsection \<open>Statements that may throw\<close>

text \<open>
  A statement returns the page as it has left it and the exception it has thrown, if
  any: what was written before a throw stays written.
\<close>

type_synonym stmt = "page \<Rightarrow> page \<times> exn option"

definition exec :: "(page \<Rightarrow> page) \<Rightarrow> stmt" where
  "exec f s = (f s, None)"

definition throw :: "exn \<Rightarrow> stmt" where
  "throw e s = (s, Some e)"

definition seq :: "stmt \<Rightarrow> stmt \<Rightarrow> stmt" where
  "seq c d s = (case c s of (s', None) \<Rightarrow> d s' | (s', Some e) \<Rightarrow> (s', Some e))"

fun block :: "stmt list \<Rightarrow> stmt" where
  "block [] = exec id"
| "block (c # cs) = seq c (block cs)"

text \<open>Evaluate an expression, then go on with its value or throw what it threw.\<close>

definition with_value :: "exn + 'a \<Rightarrow> ('a \<Rightarrow> stmt) \<Rightarrow> stmt" where
  "with_value m k s = (case m of Inl e \<Rightarrow> (s, Some e) | Inr v \<Rightarrow> k v s)"

text \<open>\<^verbatim>\<open>try { body } catch (e) { handler } finally { fin }\<close> where neither the handler nor
  the final block throws, as in the three request handlers.\<close>

definition try_catch_finally :: "stmt \<Rightarrow> (exn \<Rightarrow> page \<Rightarrow> page) \<Rightarrow> (page \<Rightarrow> page) \<Rightarrow> page \<Rightarrow> page" where
  "try_catch_finally body handler fin s =
     (case body s of
        (s', None) \<Rightarrow> fin s'
      | (s', Some e) \<Rightarrow> fin (handler e s'))"

subsection \<open>Requests and replies\<close>

record request =
  req_url :: string
  req_method :: string
  req_content_type :: string
  req_body :: jsval

text \<open>\<^verbatim>\<open>JSON.stringify\<close> of an object literal: the document the text denotes, which has
  the properties whose value is not \<^verbatim>\<open>undefined\<close>.\<close>

definition stringify :: "(string \<times> jsval) list \<Rightarrow> jsval" where
  "stringify props = JObj (filter (\<lambda>kv. snd kv \<noteq> JUndefined) props)"

definition post_json :: "string \<Rightarrow> (string \<times> jsval) list \<Rightarrow> request" where
  "post_json u props =
     \<lparr>req_url = u, req_method = ''POST'', req_content_type = ''application/json'',
      req_body = stringify props\<rparr>"

text \<open>
  What the two awaits of a handler end in: \<^verbatim>\<open>fetch\<close> rejects (\<open>NoReply\<close>), or it
  gives a response with its \<^verbatim>\<open>ok\<close> flag, whose \<^verbatim>\<open>json()\<close> either rejects (\<open>None\<close>)
  or gives the parsed body.
\<close>

datatype reply = NoReply | Reply bool "jsval option"

definition await_json :: "reply \<Rightarrow> (bool \<Rightarrow> jsval \<Rightarrow> stmt) \<Rightarrow> stmt" where
  "await_json rep k =
     (case rep of
        NoReply \<Rightarrow> throw FetchRejected
      | Reply ok None \<Rightarrow> throw BodyNotJson
      | Reply ok (Some data) \<Rightarrow> k ok data)"

section \<open>The handlers\<close>

subsection \<open>The custom dropdown\<close>

text \<open>The click listener of the trigger is installed only if the trigger exists.\<close>

definition trigger_click :: "page \<Rightarrow> page" where
  "trigger_click s =
     (case methodSelectTrigger s of
        None \<Rightarrow> s
      | Some t \<Rightarrow> s\<lparr>methodSelectTrigger := Some (toggle_class ''open'' t)\<rparr>)"

text \<open>The listener on \<^verbatim>\<open>document\<close>; \<open>inside\<close> is
  \<^verbatim>\<open>methodSelectTrigger.contains(e.target)\<close>.\<close>

definition document_click :: "bool \<Rightarrow> page \<Rightarrow> page" where
  "document_click inside s =
     (case methodSelectTrigger s of
        None \<Rightarrow> s
      | Some t \<Rightarrow>
          if \<not> inside then s\<lparr>methodSelectTrigger := Some (remove_class ''open'' t)\<rparr> else s)"

text \<open>
  The click listener of the \<open>i\<close>-th custom option, statement by statement. It is not
  inside a \<^verbatim>\<open>try\<close>: a TypeError on a missing trigger, label or method input ends the
  listener where it is thrown.
\<close>

definition select_option :: "nat \<Rightarrow> page \<Rightarrow> page" where
  "select_option i s =
     s\<lparr>customOptions :=
         (map (remove_class ''selected'') (customOptions s))
           [i := add_class ''selected'' (remove_class ''selected'' (customOptions s ! i))]\<rparr>"

definition set_trigger_label :: "string \<Rightarrow> stmt" where
  "set_trigger_label text s =
     (case methodSelectTrigger s of
        None \<Rightarrow> throw TypeError s
      | Some t \<Rightarrow>
          (case trigger_label t of
             None \<Rightarrow> throw TypeError s
           | Some l \<Rightarrow>
               exec (\<lambda>s. s\<lparr>methodSelectTrigger := Some (t\<lparr>trigger_label := Some (set_text text l)\<rparr>)\<rparr>) s))"

text \<open>\<^verbatim>\<open>methodHiddenInput.value = value\<close>, where \<^verbatim>\<open>undefined\<close> is stored as its string.\<close>

definition set_method_value :: "string option \<Rightarrow> stmt" where
  "set_method_value v s =
     (case methodSelect s of
        None \<Rightarrow> throw TypeError s
      | Some m \<Rightarrow>
          exec (\<lambda>s. s\<lparr>methodSelect :=
                   Some (set_value (case v of None \<Rightarrow> ''undefined'' | Some x \<Rightarrow> x) m)\<rparr>) s)"

definition convergence_visibility :: "string option \<Rightarrow> page \<Rightarrow> page" where
  "convergence_visibility v s =
     (case convergenceBtn s of
        None \<Rightarrow> s
      | Some b \<Rightarrow>
          if v = Some ''antithetic''
          then s\<lparr>convergenceBtn := Some (add_class ''hidden'' b)\<rparr>
          else s\<lparr>convergenceBtn := Some (remove_class ''hidden'' b)\<rparr>)"

definition close_dropdown :: stmt where
  "close_dropdown s =
     (case methodSelectTrigger s of
        None \<Rightarrow> throw TypeError s
      | Some t \<Rightarrow> exec (\<lambda>s. s\<lparr>methodSelectTrigger := Some (remove_class ''open'' t)\<rparr>) s)"

definition option_click_body :: "nat \<Rightarrow> stmt" where
  "option_click_body i s =
     (let text = textContent (customOptions s ! i);
          v = dataset_value (customOptions s ! i)
      in block
           [exec (select_option i),
            set_trigger_label text,
            set_method_value v,
            exec (convergence_visibility v),
            close_dropdown] s)"

text \<open>There is a listener for each option of the list and for nothing else.\<close>

definition option_click :: "nat \<Rightarrow> page \<Rightarrow> page" where
  "option_click i s = (if i < length (customOptions s) then fst (option_click_body i s) else s)"

subsection \<open>Fetch stock data\<close>

text \<open>
  An \<^verbatim>\<open>async\<close> listener runs up to its first \<^verbatim>\<open>await\<close> when the event fires and
  goes on when the reply is there, on the page as it is by then. Each request handler is
  therefore two functions: \<open>_begin\<close> gives the page after the synchronous part and the
  request sent, \<open>_resume\<close> takes the reply and the page of that later moment.
  \<open>fetch_begin\<close> also gives the \<^verbatim>\<open>ticker\<close> the continuation has captured.
\<close>

definition fetch_begin :: "page \<Rightarrow> page \<times> (request \<times> string) option" where
  "fetch_begin s =
     (let ticker = toUpperCase (el_value (tickerInput s)) in
      if ticker = [] then (s, None)
      else (s\<lparr>fetchBtn := set_disabled True (set_text ''Loading...'' (fetchBtn s))\<rparr>,
            Some (post_json ''/api/get-stock-data'' [(''ticker'', JStr ticker)], ticker)))"

definition price_fixed :: "(real \<Rightarrow> string) \<Rightarrow> jsval \<Rightarrow> string \<Rightarrow> nat \<Rightarrow> exn + string" where
  "price_fixed ns data name f = bindE (get_prop data name) (\<lambda>v. toFixed ns v f)"

definition fetch_ok :: "(real \<Rightarrow> string) \<Rightarrow> string \<Rightarrow> jsval \<Rightarrow> stmt" where
  "fetch_ok ns ticker data =
     block
       [with_value (price_fixed ns data ''current_price'' 2)
          (\<lambda>t. exec (\<lambda>s. s\<lparr>S0_el := set_value t (S0_el s)\<rparr>)),
        with_value (price_fixed ns data ''volatility'' 4)
          (\<lambda>t. exec (\<lambda>s. s\<lparr>sigma_el := set_value t (sigma_el s)\<rparr>)),
        with_value (get_prop data ''risk_free_rate'')
          (\<lambda>v. exec (\<lambda>s. s\<lparr>r_el := set_value (dom_string ns v) (r_el s)\<rparr>)),
        with_value (price_fixed ns data ''current_price'' 2)
          (\<lambda>t. exec (\<lambda>s. s\<lparr>K_el := set_value t (K_el s)\<rparr>)),
        exec (\<lambda>s. s\<lparr>q_el := map_option (set_value ''0.0'') (q_el s)\<rparr>),
        with_value (get_prop data ''currency'')
          (\<lambda>c. let currencySymbol = js_or c (JStr ''$'') in
             exec (\<lambda>s. s\<lparr>currentCurrency := currencySymbol,
                         currencyLabels :=
                           map (set_text (''('' @ to_string ns currencySymbol @ '')''))
                             (currencyLabels s)\<rparr>)),
        exec (\<lambda>s. s\<lparr>volSource :=
                 map_option (set_text (''Historical Volatility (1Y) for '' @ ticker)) (volSource s)\<rparr>)]"

definition fetch_failed :: "jsval \<Rightarrow> stmt" where
  "fetch_failed data =
     with_value (get_prop data ''error'')
       (\<lambda>err. exec (alert (js_or err (JStr ''Error fetching data''))))"

definition fetch_resume :: "(real \<Rightarrow> string) \<Rightarrow> string \<Rightarrow> reply \<Rightarrow> page \<Rightarrow> page" where
  "fetch_resume ns ticker rep =
     try_catch_finally
       (await_json rep (\<lambda>ok data. if ok then fetch_ok ns ticker data else fetch_failed data))
       (\<lambda>e s. alert (JStr ''Failed to connect to server'') (console_error e s))
       (\<lambda>s. s\<lparr>fetchBtn := set_disabled False (set_text ''Fetch Data'' (fetchBtn s))\<rparr>)"

subsection \<open>Showing results\<close>

text \<open>\<^verbatim>\<open>if (chartInstance) chartInstance.destroy()\<close>, for either chart variable.\<close>

definition destroy :: "chart option \<Rightarrow> chart option" where
  "destroy c = map_option (\<lambda>ch. ch\<lparr>destroyed := True\<rparr>) c"

definition new_chart :: "jsval \<Rightarrow> (string \<times> jsval) list \<Rightarrow> chart" where
  "new_chart labels series = \<lparr>chart_labels = labels, chart_series = series, destroyed = False\<rparr>"

text \<open>\<^verbatim>\<open>mcData.paths.map((path, index) => ({label: `Path ${index + 1}`, data: path, ...}))\<close>:
  only an array has \<^verbatim>\<open>map\<close>.\<close>

fun path_datasets :: "jsval \<Rightarrow> exn + (string \<times> jsval) list" where
  "path_datasets (JArr paths) =
     Inr (map (\<lambda>(index, path). (''Path '' @ decimal (index + 1), path)) (enumerate 0 paths))"
| "path_datasets v = Inl TypeError"

text \<open>\<^verbatim>\<open>renderChart\<close>: the construction of the chart is in a \<^verbatim>\<open>try\<close> of its own that
  logs and goes on; everything before it is not.\<close>

definition renderChart :: "jsval \<Rightarrow> stmt" where
  "renderChart mcData =
     block
       [exec (\<lambda>s. s\<lparr>chartInstance := destroy (chartInstance s)\<rparr>),
        with_value (get_prop mcData ''steps'') (\<lambda>labels.
          with_value (bindE (get_prop mcData ''paths'') path_datasets) (\<lambda>datasets.
            exec (\<lambda>s. if chartLoaded s
                       then s\<lparr>chartInstance := Some (new_chart labels datasets)\<rparr>
                       else console_error ReferenceError s)))]"

text \<open>\<^verbatim>\<open>renderConvergenceChart\<close> has no \<^verbatim>\<open>try\<close>: a missing \<^verbatim>\<open>Chart\<close> is thrown on.\<close>

definition renderConvergenceChart :: "jsval \<Rightarrow> stmt" where
  "renderConvergenceChart data =
     block
       [exec (\<lambda>s. s\<lparr>convergenceChartInstance := destroy (convergenceChartInstance s)\<rparr>),
        (\<lambda>s. if chartLoaded s then exec id s else throw ReferenceError s),
        with_value (get_prop data ''x'') (\<lambda>x.
          with_value (get_prop data ''y'') (\<lambda>y.
            with_value (get_prop data ''bs_line'') (\<lambda>bs_line.
              exec (\<lambda>s. s\<lparr>convergenceChartInstance :=
                       Some (new_chart x [(''Monte Carlo Estimate'', y),
                                          (''Black-Scholes Price'', bs_line)])\<rparr>))))]"

text \<open>The sign \<^verbatim>\<open>U+00B1\<close> in front of the standard errors, in UTF-8.\<close>

definition plus_minus :: string where
  "plus_minus = [CHR 0xC2, CHR 0xB1]"

text \<open>\<^verbatim>\<open>format = (num) => `${currentCurrency}${num.toFixed(4)}`\<close>, of the property
  \<open>name\<close> of the object \<open>outer\<close> of the data, on the page \<open>s\<close>.\<close>

definition nested_prop :: "jsval \<Rightarrow> string \<Rightarrow> string \<Rightarrow> exn + jsval" where
  "nested_prop data outer name = bindE (get_prop data outer) (\<lambda>g. get_prop g name)"

definition format :: "(real \<Rightarrow> string) \<Rightarrow> page \<Rightarrow> jsval \<Rightarrow> exn + string" where
  "format ns s num = bindE (toFixed ns num 4) (\<lambda>t. Inr (to_string ns (currentCurrency s) @ t))"

definition show_price ::
  "(real \<Rightarrow> string) \<Rightarrow> jsval \<Rightarrow> string \<Rightarrow> string \<Rightarrow> (string \<Rightarrow> page \<Rightarrow> page) \<Rightarrow> stmt" where
  "show_price ns data outer name put s =
     with_value (bindE (nested_prop data outer name) (format ns s)) (\<lambda>t. exec (put t)) s"

definition show_stderr ::
  "(real \<Rightarrow> string) \<Rightarrow> jsval \<Rightarrow> string \<Rightarrow> (string \<Rightarrow> page \<Rightarrow> page) \<Rightarrow> stmt" where
  "show_stderr ns data name put =
     with_value (bindE (nested_prop data ''mc'' name) (\<lambda>v. toFixed ns v 4))
       (\<lambda>t. exec (put (plus_minus @ t)))"

definition displayResults :: "(real \<Rightarrow> string) \<Rightarrow> jsval \<Rightarrow> stmt" where
  "displayResults ns data =
     block
       [exec (\<lambda>s. s\<lparr>results := remove_class ''hidden'' (results s)\<rparr>),
        exec (\<lambda>s. s\<lparr>convergenceSection := map_option (add_class ''hidden'') (convergenceSection s)\<rparr>),
        show_price ns data ''bs'' ''call_price'' (\<lambda>t s. s\<lparr>bsCall := set_text t (bsCall s)\<rparr>),
        show_price ns data ''bs'' ''put_price'' (\<lambda>t s. s\<lparr>bsPut := set_text t (bsPut s)\<rparr>),
        show_price ns data ''mc'' ''call_price'' (\<lambda>t s. s\<lparr>mcCall := set_text t (mcCall s)\<rparr>),
        show_price ns data ''mc'' ''put_price'' (\<lambda>t s. s\<lparr>mcPut := set_text t (mcPut s)\<rparr>),
        show_stderr ns data ''call_stderr'' (\<lambda>t s. s\<lparr>mcCallErr := set_text t (mcCallErr s)\<rparr>),
        show_stderr ns data ''put_stderr'' (\<lambda>t s. s\<lparr>mcPutErr := set_text t (mcPutErr s)\<rparr>),
        with_value (get_prop data ''mc'') renderChart]"

subsection \<open>Run simulation\<close>

text \<open>The value of \<^verbatim>\<open>q ? q.value : 0.0\<close> and of
  \<^verbatim>\<open>methodSelect ? methodSelect.value : 'standard'\<close>.\<close>

definition q_field :: "page \<Rightarrow> jsval" where
  "q_field s = (case q_el s of Some e \<Rightarrow> JStr (el_value e) | None \<Rightarrow> JNum 0.0)"

definition method_field :: "page \<Rightarrow> jsval" where
  "method_field s = (case methodSelect s of Some m \<Rightarrow> JStr (el_value m) | None \<Rightarrow> JStr ''standard'')"

definition simulate_payload :: "page \<Rightarrow> (string \<times> jsval) list" where
  "simulate_payload s =
     [(''S0'', JStr (el_value (S0_el s))),
      (''K'', JStr (el_value (K_el s))),
      (''T'', JStr (el_value (T_el s))),
      (''r'', JStr (el_value (r_el s))),
      (''sigma'', JStr (el_value (sigma_el s))),
      (''q'', q_field s),
      (''steps'', JStr (el_value (steps_el s))),
      (''method'', method_field s)]"

definition simulate_begin :: "page \<Rightarrow> page \<times> request" where
  "simulate_begin s =
     (s\<lparr>simulateBtn := set_disabled True (set_text ''Running Simulation...'' (simulateBtn s))\<rparr>,
      post_json ''/api/simulate'' (simulate_payload s))"

definition alert_error :: "jsval \<Rightarrow> stmt" where
  "alert_error data = with_value (get_prop data ''error'') (\<lambda>err. exec (alert err))"

definition simulate_resume :: "(real \<Rightarrow> string) \<Rightarrow> reply \<Rightarrow> page \<Rightarrow> page" where
  "simulate_resume ns rep =
     try_catch_finally
       (await_json rep (\<lambda>ok data. if ok then displayResults ns data else alert_error data))
       (\<lambda>e s. console_error e s)
       (\<lambda>s. s\<lparr>simulateBtn := set_disabled False (set_text ''Run Simulation'' (simulateBtn s))\<rparr>)"

subsection \<open>Run convergence analysis\<close>

text \<open>The listener is installed only if the button exists; the functions below are its
  body, on a page that has the button or not.\<close>

definition convergence_payload :: "page \<Rightarrow> (string \<times> jsval) list" where
  "convergence_payload s =
     [(''S0'', JStr (el_value (S0_el s))),
      (''K'', JStr (el_value (K_el s))),
      (''T'', JStr (el_value (T_el s))),
      (''r'', JStr (el_value (r_el s))),
      (''sigma'', JStr (el_value (sigma_el s))),
      (''q'', q_field s),
      (''method'', method_field s)]"

definition convergence_begin :: "page \<Rightarrow> page \<times> request" where
  "convergence_begin s =
     (s\<lparr>convergenceBtn :=
          map_option (\<lambda>b. set_disabled True (set_text ''Analyzing...'' b)) (convergenceBtn s)\<rparr>,
      post_json ''/api/convergence'' (convergence_payload s))"

definition convergence_ok :: "jsval \<Rightarrow> stmt" where
  "convergence_ok data =
     block
       [exec (\<lambda>s. s\<lparr>convergenceSection :=
                 map_option (remove_class ''hidden'') (convergenceSection s)\<rparr>),
        renderConvergenceChart data]"

definition convergence_resume :: "reply \<Rightarrow> page \<Rightarrow> page" where
  "convergence_resume rep =
     try_catch_finally
       (await_json rep (\<lambda>ok data. if ok then convergence_ok data else alert_error data))
       (\<lambda>e s. console_error e s)
       (\<lambda>s. s\<lparr>convergenceBtn :=
                map_option (\<lambda>b. set_disabled False (set_text ''Analyze Convergence'' b))
                  (convergenceBtn s)\<rparr>)"

section \<open>Runs of the page\<close>

text \<open>
  What can happen to the page. A click on a disabled button fires nothing, and no click
  reaches a button that is not displayed. A click that is not stopped bubbles to the
  listener on \<^verbatim>\<open>document\<close>; the listener of an option stops it. A reply may arrive at
  any moment and, for the stock data, for any captured ticker: the runs below contain
  every interleaving the browser can produce.
\<close>

datatype input_field = Ticker | Spot | Strike | Maturity | Volatility | Rate | Yield | Steps

datatype event =
    ClickTrigger
  | ClickOption nat
  | ClickElsewhere
  | Edit input_field string
  | ClickFetch
  | FetchReply string reply
  | Submit
  | SimulateReply reply
  | ClickConvergence
  | ConvergenceReply reply

fun edit :: "input_field \<Rightarrow> string \<Rightarrow> page \<Rightarrow> page" where
  "edit Ticker v s = s\<lparr>tickerInput := set_value v (tickerInput s)\<rparr>"
| "edit Spot v s = s\<lparr>S0_el := set_value v (S0_el s)\<rparr>"
| "edit Strike v s = s\<lparr>K_el := set_value v (K_el s)\<rparr>"
| "edit Maturity v s = s\<lparr>T_el := set_value v (T_el s)\<rparr>"
| "edit Volatility v s = s\<lparr>sigma_el := set_value v (sigma_el s)\<rparr>"
| "edit Rate v s = s\<lparr>r_el := set_value v (r_el s)\<rparr>"
| "edit Yield v s = s\<lparr>q_el := map_option (set_value v) (q_el s)\<rparr>"
| "edit Steps v s = s\<lparr>steps_el := set_value v (steps_el s)\<rparr>"

text \<open>
  Modelled from the spec: the stylesheet is not part of the sources. The class
  \<^verbatim>\<open>hidden\<close> takes an element off the display (the spec's "convergence analysis is only
  offered for Standard and Control-Variate methods"), so the convergence button is
  offered when it exists, is enabled and does not carry the class.
\<close>

definition offered :: "element option \<Rightarrow> bool" where
  "offered b = (case b of None \<Rightarrow> False | Some e \<Rightarrow> \<not> disabled e \<and> ''hidden'' \<notin> classList e)"

fun fire :: "(real \<Rightarrow> string) \<Rightarrow> event \<Rightarrow> page \<Rightarrow> page" where
  "fire ns ClickTrigger s = document_click True (trigger_click s)"
| "fire ns (ClickOption i) s = option_click i s"
| "fire ns ClickElsewhere s = document_click False s"
| "fire ns (Edit f v) s = edit f v s"
| "fire ns ClickFetch s =
     (if disabled (fetchBtn s) then s else document_click False (fst (fetch_begin s)))"
| "fire ns (FetchReply ticker rep) s = fetch_resume ns ticker rep s"
| "fire ns Submit s =
     (if disabled (simulateBtn s) then s else document_click False (fst (simulate_begin s)))"
| "fire ns (SimulateReply rep) s = simulate_resume ns rep s"
| "fire ns ClickConvergence s =
     (if offered (convergenceBtn s) then document_click False (fst (convergence_begin s)) else s)"
| "fire ns (ConvergenceReply rep) s =
     (case convergenceBtn s of None \<Rightarrow> s | Some b \<Rightarrow> convergence_resume rep s)"

fun run :: "(real \<Rightarrow> string) \<Rightarrow> event list \<Rightarrow> page \<Rightarrow> page" where
  "run ns [] s = s"
| "run ns (ev # evs) s = run ns evs (fire ns ev s)"

subsection \<open>A concrete page\<close>

text \<open>A page with every element, three methods in the dropdown and the standard method
  selected, and a stand-in for the number-to-string conversion; the concrete instances
  of the theorems are taken there.\<close>

definition blank :: element where
  "blank = \<lparr>el_value = '''', textContent = '''', disabled = False, classList = {}\<rparr>"

definition method_option :: "string \<Rightarrow> string \<Rightarrow> option_el" where
  "method_option v label =
     \<lparr>el_value = '''', textContent = label, disabled = False, classList = {},
      dataset_value = Some v\<rparr>"

definition sample_page :: page where
  "sample_page =
     \<lparr>fetchBtn = set_text ''Fetch Data'' blank,
      simulateBtn = set_text ''Run Simulation'' blank,
      convergenceBtn = Some (set_text ''Analyze Convergence'' blank),
      tickerInput = set_value ''aapl'' blank,
      S0_el = set_value ''100'' blank,
      K_el = set_value ''105'' blank,
      T_el = set_value ''1'' blank,
      sigma_el = set_value ''0.2'' blank,
      r_el = set_value ''0.05'' blank,
      steps_el = set_value ''252'' blank,
      q_el = Some (set_value ''0.01'' blank),
      methodSelect = Some (set_value ''standard'' blank),
      volSource = Some blank,
      methodSelectTrigger =
        Some \<lparr>el_value = '''', textContent = '''', disabled = False, classList = {},
              trigger_label = Some (set_text ''Standard Monte Carlo'' blank)\<rparr>,
      customOptions =
        [method_option ''standard'' ''Standard Monte Carlo'',
         method_option ''antithetic'' ''Antithetic Variates'',
         method_option ''control_variate'' ''Control Variates''],
      currencyLabels = [set_text ''($)'' blank, set_text ''($)'' blank],
      currentCurrency = JStr ''$'',
      chartLoaded = True,
      chartInstance = None,
      convergenceChartInstance = None,
      results = add_class ''hidden'' blank,
      convergenceSection = Some (add_class ''hidden'' blank),
      bsCall = blank, bsPut = blank, mcCall = blank, mcPut = blank,
      mcCallErr = blank, mcPutErr = blank,
      alerts = [],
      console = []\<rparr>"

definition sample_ns :: "real \<Rightarrow> string" where
  "sample_ns x = to_fixed (\<lambda>y. ''1e+21'') 3 x"

definition sample_quote :: jsval where
  "sample_quote =
     JObj [(''current_price'', JNum (189456 / 1000)),
           (''volatility'', JNum (24317 / 100000)),
           (''risk_free_rate'', JNum (45 / 1000)),
           (''currency'', JStr ''$'')]"

definition sample_error :: jsval where
  "sample_error = JObj [(''error'', JStr ''S0 must be positive'')]"

section \<open>The pricing core, as the spec describes it\<close>

text \<open>
  Modelled from the spec: the server side of the application (parameter validator,
  Black-Scholes solver, simulation) is not part of the sources; the script only calls
  it through \<^verbatim>\<open>/api/simulate\<close> and \<^verbatim>\<open>/api/convergence\<close>. The definitions of this
  section follow the words of the spec, over the real numbers.
\<close>

text \<open>Modelled from the spec: the error kinds of (7) that the pricing core raises.\<close>

datatype error = InvalidParameter | NumericalDegeneracy

text \<open>Modelled from the spec: OptionParameters (3), spot price S0, strike K,
  time-to-maturity T, risk-free rate r, dividend/carry yield q, volatility sigma.\<close>

record option_parameters =
  spot :: real
  strike :: real
  maturity :: real
  rate :: real
  carry :: real
  volatility :: real

text \<open>Modelled from the spec: SimulationConfig (3), without the optional seed. The spec
  bounds steps and N from below and says no more about them, so they stay the numbers
  that were parsed.\<close>

record simulation_config =
  steps :: real
  paths :: real

text \<open>Modelled from the spec: "all valid parameters" are the invariants of (3) on the
  option parameters.\<close>

definition valid_parameters :: "option_parameters \<Rightarrow> bool" where
  "valid_parameters p =
     (0 < spot p \<and> 0 < strike p \<and> 0 < maturity p \<and> 0 \<le> volatility p \<and> 0 \<le> carry p)"

text \<open>
  Modelled from the spec: the standard normal cumulative distribution function of (4.4).
  The spec names the function and gives no formula; it is written here as its Maclaurin
  series \<open>1/2 + (1 / sqrt (2 pi)) * (\<Sum>n. (-1)^n x^(2n+1) / (n! 2^n (2n+1)))\<close>.
\<close>

definition Phi_term :: "real \<Rightarrow> nat \<Rightarrow> real" where
  "Phi_term x n = (- 1) ^ n * x ^ (2 * n + 1) / (fact n * 2 ^ n * real (2 * n + 1))"

definition Phi :: "real \<Rightarrow> real" where
  "Phi x = 1 / 2 + (1 / sqrt (2 * pi)) * (\<Sum>n. Phi_term x n)"

text \<open>Modelled from the spec: the formulas of (4.4) for d1, d2, Call and Put.\<close>

definition d1 :: "option_parameters \<Rightarrow> real" where
  "d1 p =
     (ln (spot p / strike p) + (rate p - carry p + (volatility p)\<^sup>2 / 2) * maturity p)
       / (volatility p * sqrt (maturity p))"

definition d2 :: "option_parameters \<Rightarrow> real" where
  "d2 p = d1 p - volatility p * sqrt (maturity p)"

definition bs_call :: "option_parameters \<Rightarrow> real" where
  "bs_call p =
     spot p * exp (- carry p * maturity p) * Phi (d1 p)
       - strike p * exp (- rate p * maturity p) * Phi (d2 p)"

definition bs_put :: "option_parameters \<Rightarrow> real" where
  "bs_put p =
     strike p * exp (- rate p * maturity p) * Phi (- d2 p)
       - spot p * exp (- carry p * maturity p) * Phi (- d1 p)"

text \<open>
  Modelled from the spec: "Degenerate case sigma to 0 or T to 0 must be handled without
  division by zero (fails with InvalidParameter or returns the intrinsic-value limit;
  policy to be fixed by implementer)". Both policies are modelled; the solver gives the
  pair (Call, Put).
\<close>

datatype degenerate_policy = Reject | IntrinsicLimit

definition intrinsic :: "option_parameters \<Rightarrow> real \<times> real" where
  "intrinsic p =
     (let fwd = spot p * exp (- carry p * maturity p);
          dk = strike p * exp (- rate p * maturity p)
      in (max (fwd - dk) 0, max (dk - fwd) 0))"

definition black_scholes :: "degenerate_policy \<Rightarrow> option_parameters \<Rightarrow> error + real \<times> real" where
  "black_scholes pol p =
     (if volatility p * sqrt (maturity p) = 0
      then (case pol of Reject \<Rightarrow> Inl InvalidParameter | IntrinsicLimit \<Rightarrow> Inr (intrinsic p))
      else Inr (bs_call p, bs_put p))"

subsection \<open>The parameter validator\<close>

text \<open>
  Modelled from the spec: the raw input of (4.1), "raw user-supplied scalars (possibly
  textual)", as the JSON values of a request plus the number of paths; \<open>q\<close> may be
  absent. How a text is read as a number is not fixed by the spec and is the parameter
  \<open>parse\<close>, which gives \<open>None\<close> for a text that is not a finite real number.
\<close>

record raw_parameters =
  raw_S0 :: jsval
  raw_K :: jsval
  raw_T :: jsval
  raw_r :: jsval
  raw_sigma :: jsval
  raw_q :: "jsval option"
  raw_steps :: jsval
  raw_N :: jsval

text \<open>Modelled from the spec: (4.1), a value "cannot be parsed as a finite real number":
  a JSON number is the number it denotes, a text is what \<open>parse\<close> makes of it, and
  nothing else is a number. \<open>require\<close> adds a bound; \<open>and_then\<close> stops at the first
  failure.\<close>

fun scalar :: "(string \<Rightarrow> real option) \<Rightarrow> jsval \<Rightarrow> error + real" where
  "scalar parse (JNum x) = Inr x"
| "scalar parse (JStr t) = (case parse t of None \<Rightarrow> Inl InvalidParameter | Some x \<Rightarrow> Inr x)"
| "scalar parse v = Inl InvalidParameter"

definition require :: "(real \<Rightarrow> bool) \<Rightarrow> error + real \<Rightarrow> error + real" where
  "require ok m = (case m of Inl e \<Rightarrow> Inl e | Inr x \<Rightarrow> if ok x then Inr x else Inl InvalidParameter)"

definition and_then :: "error + 'a \<Rightarrow> ('a \<Rightarrow> error + 'b) \<Rightarrow> error + 'b" where
  "and_then m f = (case m of Inl e \<Rightarrow> Inl e | Inr v \<Rightarrow> f v)"

text \<open>Modelled from the spec: (4.1), "Fails with InvalidParameter when any of S0, K,
  T \<le> 0, sigma < 0, steps < 1, or N < 1, or when a value cannot be parsed as a finite
  real number. Defaults q to 0 when absent."\<close>

definition validate ::
  "(string \<Rightarrow> real option) \<Rightarrow> raw_parameters \<Rightarrow> error + option_parameters \<times> simulation_config" where
  "validate parse raw =
     and_then (require (\<lambda>x. 0 < x) (scalar parse (raw_S0 raw))) (\<lambda>s0.
     and_then (require (\<lambda>x. 0 < x) (scalar parse (raw_K raw))) (\<lambda>k.
     and_then (require (\<lambda>x. 0 < x) (scalar parse (raw_T raw))) (\<lambda>t.
     and_then (scalar parse (raw_r raw)) (\<lambda>r.
     and_then (require (\<lambda>x. 0 \<le> x) (scalar parse (raw_sigma raw))) (\<lambda>sg.
     and_then (case raw_q raw of None \<Rightarrow> Inr 0 | Some v \<Rightarrow> scalar parse v) (\<lambda>q.
     and_then (require (\<lambda>x. 1 \<le> x) (scalar parse (raw_steps raw))) (\<lambda>st.
     and_then (require (\<lambda>x. 1 \<le> x) (scalar parse (raw_N raw))) (\<lambda>n.
       Inr (\<lparr>spot = s0, strike = k, maturity = t, rate = r, carry = q, volatility = sg\<rparr>,
            \<lparr>steps = st, paths = n\<rparr>)))))))))"

text \<open>Modelled from the spec: (2), "Validator output feeds the Analytical Solver": the
  analytical part of a price, produced from raw input.\<close>

definition analytical_price ::
  "(string \<Rightarrow> real option) \<Rightarrow> degenerate_policy \<Rightarrow> raw_parameters \<Rightarrow> error + real \<times> real" where
  "analytical_price parse pol raw = and_then (validate parse raw) (\<lambda>(p, c). black_scholes pol p)"

text \<open>Modelled from the spec: a raw scalar that (4.1) makes the validator refuse, not a
  finite real number or one for which \<open>bad\<close> holds (\<open>x \<le> 0\<close> for S0, K and T,
  \<open>x < 0\<close> for sigma, \<open>x < 1\<close> for steps and N).\<close>

definition refused :: "(string \<Rightarrow> real option) \<Rightarrow> (real \<Rightarrow> bool) \<Rightarrow> jsval \<Rightarrow> bool" where
  "refused parse bad v = (case scalar parse v of Inl e \<Rightarrow> True | Inr x \<Rightarrow> bad x)"

text \<open>Modelled from the spec: concrete inputs of the pricing core, the reference scenario
  of (8) and a raw request whose spot price is zero, read by a parser that knows two
  texts.\<close>

definition sample_parameters :: option_parameters where
  "sample_parameters =
     \<lparr>spot = 100, strike = 100, maturity = 1, rate = 5 / 100, carry = 0, volatility = 2 / 10\<rparr>"

definition sample_parse :: "string \<Rightarrow> real option" where
  "sample_parse t = (if t = ''0'' then Some 0 else if t = ''1'' then Some 1 else None)"

definition sample_raw :: raw_parameters where
  "sample_raw =
     \<lparr>raw_S0 = JStr ''0'', raw_K = JNum 100, raw_T = JStr ''1'', raw_r = JNum (5 / 100),
      raw_sigma = JNum (2 / 10), raw_q = None, raw_steps = JNum 252, raw_N = JNum 10000\<rparr>"

section \<open>Properties of the script\<close>

subsection \<open>Notions used in the statements\<close>

text \<open>A statement keeps an observation of the page if the observation is the same
  after it, whether it has thrown or not.\<close>

definition keeps :: "(page \<Rightarrow> 'a) \<Rightarrow> stmt \<Rightarrow> bool" where
  "keeps f c = (\<forall>s. f (fst (c s)) = f s)"

text \<open>A button at rest: enabled, with its idle label.\<close>

definition idle :: "string \<Rightarrow> element \<Rightarrow> bool" where
  "idle label b = (\<not> disabled b \<and> textContent b = label)"

text \<open>Everything \<^verbatim>\<open>displayResults\<close> and the two chart functions can write.\<close>

definition result_view ::
  "page \<Rightarrow> element \<times> element option \<times> element list \<times> chart option \<times> chart option" where
  "result_view s =
     (results s, convergenceSection s,
      [bsCall s, bsPut s, mcCall s, mcPut s, mcCallErr s, mcPutErr s],
      chartInstance s, convergenceChartInstance s)"

text \<open>What the dropdown logic depends on: the method input, the classes of the
  convergence button and the values of the options.\<close>

definition dropdown_view :: "page \<Rightarrow> element option \<times> string set option \<times> string option list" where
  "dropdown_view s =
     (methodSelect s, map_option classList (convergenceBtn s), map dataset_value (customOptions s))"

text \<open>The convergence button, if there is one, is hidden whenever the method that a
  request would carry is \<^verbatim>\<open>antithetic\<close>.\<close>

definition antithetic_hidden :: "page \<Rightarrow> bool" where
  "antithetic_hidden s =
     (case convergenceBtn s of
        None \<Rightarrow> True
      | Some b \<Rightarrow> method_field s = JStr ''antithetic'' \<longrightarrow> ''hidden'' \<in> classList b)"

text \<open>The dropdown is complete: trigger, label and method input exist, so that the
  listener of an option runs to its end.\<close>

definition dropdown_complete :: "page \<Rightarrow> bool" where
  "dropdown_complete s =
     (case methodSelectTrigger s of
        None \<Rightarrow> False
      | Some t \<Rightarrow> trigger_label t \<noteq> None \<and> methodSelect s \<noteq> None)"

definition allowed_methods :: "string set" where
  "allowed_methods = {''standard'', ''antithetic'', ''control_variate''}"

text \<open>The markup offers the three methods only: every option carries one of them, and
  so does the method input as long as nothing is selected.\<close>

definition methods_allowed :: "page \<Rightarrow> bool" where
  "methods_allowed s =
     (list_all (\<lambda>opt. case dataset_value opt of None \<Rightarrow> False | Some v \<Rightarrow> v \<in> allowed_methods)
        (customOptions s)
      \<and> (case methodSelect s of None \<Rightarrow> True | Some m \<Rightarrow> el_value m \<in> allowed_methods))"

text \<open>The number a property read has given, if it has given one.\<close>

fun number_of :: "exn + jsval \<Rightarrow> real option" where
  "number_of (Inr (JNum x)) = Some x"
| "number_of v = None"

subsection \<open>Statements and what they keep\<close>

lemmas el_defs = set_value_def set_text_def set_disabled_def add_class_def remove_class_def toggle_class_def

lemma keeps_exec: "(\<And>s. f (g s) = f s) \<Longrightarrow> keeps f (exec g)"
  by (simp add: keeps_def exec_def)

lemma keeps_throw: "keeps f (throw e)"
  by (simp add: keeps_def throw_def)

lemma keeps_seq: "keeps f c \<Longrightarrow> keeps f d \<Longrightarrow> keeps f (seq c d)"
  unfolding keeps_def seq_def
  by (metis (mono_tags, lifting) case_prod_conv fst_conv option.case_eq_if surjective_pairing)

lemma keeps_block_Nil: "keeps f (block [])"
  by (simp add: keeps_def exec_def)

lemma keeps_block_Cons: "keeps f c \<Longrightarrow> keeps f (block cs) \<Longrightarrow> keeps f (block (c # cs))"
  by (simp add: keeps_seq)

lemma keeps_with_value: "(\<And>v. keeps f (k v)) \<Longrightarrow> keeps f (with_value m k)"
  by (cases m) (simp_all add: keeps_def with_value_def)

lemma keeps_await_json: "(\<And>ok data. keeps f (k ok data)) \<Longrightarrow> keeps f (await_json rep k)"
  by (auto simp: await_json_def keeps_throw split: reply.split option.split)

lemma keeps_if: "keeps f c \<Longrightarrow> keeps f d \<Longrightarrow> keeps f (if b then c else d)"
  by simp

lemma keeps_try:
  assumes "keeps f body" and "\<And>e s. f (h e s) = f s" and "\<And>s. f (fin s) = f s"
  shows "f (try_catch_finally body h fin s) = f s"
proof (cases "body s")
  case (Pair s' r)
  with assms(1) have "f s' = f s" by (metis fst_conv keeps_def)
  with Pair assms(2,3) show ?thesis
    by (cases r) (simp_all add: try_catch_finally_def)
qed

lemmas keeps_intros = keeps_block_Cons keeps_block_Nil keeps_with_value keeps_await_json
  keeps_if keeps_exec keeps_throw


lemma show_price_keeps: "(\<And>t s. f (put t s) = f s) \<Longrightarrow> keeps f (show_price ns data g n put)"
  unfolding keeps_def show_price_def with_value_def exec_def by (auto split: sum.split)

lemma show_stderr_keeps: "(\<And>t s. f (put t s) = f s) \<Longrightarrow> keeps f (show_stderr ns data n put)"
  unfolding show_stderr_def by (intro keeps_intros) simp

lemma alert_error_keeps: "(\<And>v s. f (alert v s) = f s) \<Longrightarrow> keeps f (alert_error data)"
  unfolding alert_error_def by (intro keeps_intros) simp

lemma dropdown_view_simps [simp]:
  "dropdown_view (alert v s) = dropdown_view s"
  "dropdown_view (console_error e s) = dropdown_view s"
  by (simp_all add: dropdown_view_def alert_def console_error_def alert_def console_error_def)

lemma renderChart_dropdown: "keeps dropdown_view (renderChart mc)"
  unfolding renderChart_def by (intro keeps_intros) (simp_all add: dropdown_view_def alert_def console_error_def)

lemma renderConvergenceChart_dropdown: "keeps dropdown_view (renderConvergenceChart data)"
proof -
  have "keeps dropdown_view (\<lambda>s. if chartLoaded s then exec id s else throw ReferenceError s)"
    by (simp add: keeps_def exec_def throw_def)
  then show ?thesis
    unfolding renderConvergenceChart_def by (intro keeps_intros) (simp_all add: dropdown_view_def alert_def console_error_def)
qed

lemma displayResults_dropdown: "keeps dropdown_view (displayResults ns data)"
  unfolding displayResults_def
  by (intro keeps_intros show_price_keeps show_stderr_keeps renderChart_dropdown)
     (simp_all add: dropdown_view_def alert_def console_error_def)

lemma fetch_ok_dropdown: "keeps dropdown_view (fetch_ok ns ticker data)"
  unfolding fetch_ok_def Let_def by (intro keeps_intros) (simp_all add: dropdown_view_def alert_def console_error_def)

lemma fetch_failed_dropdown: "keeps dropdown_view (fetch_failed data)"
  unfolding fetch_failed_def by (intro keeps_intros) simp

lemma fetch_resume_dropdown: "dropdown_view (fetch_resume ns ticker rep s) = dropdown_view s"
  unfolding fetch_resume_def
  by (rule keeps_try) (intro keeps_intros fetch_ok_dropdown fetch_failed_dropdown, simp_all add: dropdown_view_def alert_def console_error_def)

lemma simulate_resume_dropdown: "dropdown_view (simulate_resume ns rep s) = dropdown_view s"
  unfolding simulate_resume_def
  by (rule keeps_try) (intro keeps_intros displayResults_dropdown alert_error_keeps, simp_all add: dropdown_view_def alert_def console_error_def)

lemma convergence_ok_dropdown: "keeps dropdown_view (convergence_ok data)"
  unfolding convergence_ok_def
  by (intro keeps_intros renderConvergenceChart_dropdown) (simp_all add: dropdown_view_def alert_def console_error_def)

lemma convergence_resume_dropdown: "dropdown_view (convergence_resume rep s) = dropdown_view s"
  unfolding convergence_resume_def
  by (rule keeps_try)
     (intro keeps_intros convergence_ok_dropdown alert_error_keeps,
      simp_all add: dropdown_view_def alert_def console_error_def option.map_comp comp_def el_defs)

lemma begin_dropdown:
  "dropdown_view (fst (fetch_begin s)) = dropdown_view s"
  "dropdown_view (fst (simulate_begin s)) = dropdown_view s"
  "dropdown_view (fst (convergence_begin s)) = dropdown_view s"
  by (simp_all add: fetch_begin_def simulate_begin_def convergence_begin_def Let_def
        dropdown_view_def option.map_comp comp_def el_defs)

lemma clicks_dropdown:
  "dropdown_view (trigger_click s) = dropdown_view s"
  "dropdown_view (document_click inside s) = dropdown_view s"
  "dropdown_view (edit fld v s) = dropdown_view s"
  by (cases fld; simp add: trigger_click_def document_click_def dropdown_view_def split: option.split)+

lemma fire_dropdown:
  "(\<And>i. ev \<noteq> ClickOption i) \<Longrightarrow> dropdown_view (fire ns ev s) = dropdown_view s"
  by (cases ev)
     (auto simp: clicks_dropdown begin_dropdown fetch_resume_dropdown simulate_resume_dropdown
        convergence_resume_dropdown split: option.split)

subsection \<open>The series of the normal distribution\<close>

lemma Phi_term_minus: "Phi_term (- x) n = - Phi_term x n"
  by (simp add: Phi_term_def)

lemma shrink_odd: "0 \<le> (a::real) \<Longrightarrow> a / real (2 * n + 1) \<le> a"
proof -
  assume a: "0 \<le> a"
  have "a * 1 \<le> a * real (2 * n + 1)"
    by (rule mult_left_mono) (use a in simp_all)
  moreover have "0 < real (2 * n + 1)" by simp
  ultimately show ?thesis
    by (metis mult.right_neutral pos_divide_le_eq)
qed

lemma Phi_term_bound: "norm (Phi_term x n) \<le> \<bar>x\<bar> * ((x\<^sup>2 / 2) ^ n /\<^sub>R fact n)"
proof -
  define a where "a = \<bar>x\<bar> * (x\<^sup>2 / 2) ^ n / fact n"
  have a_nonneg: "0 \<le> a"
  proof -
    have "0 \<le> (x\<^sup>2 / 2) ^ n" by (rule zero_le_power) simp
    then show ?thesis
      unfolding a_def by (intro divide_nonneg_nonneg mult_nonneg_nonneg) simp_all
  qed
  have even_part: "\<bar>x\<bar> ^ (2 * n) = (x\<^sup>2) ^ n"
    by (simp add: power_mult)
  have "norm (Phi_term x n) = \<bar>x\<bar> ^ (2 * n + 1) / (fact n * 2 ^ n * real (2 * n + 1))"
    by (simp add: Phi_term_def abs_mult power_abs)
  also have "\<dots> = a / real (2 * n + 1)"
    using even_part by (simp add: a_def power_divide)
  also have "\<dots> \<le> a"
    using a_nonneg by (rule shrink_odd)
  finally have "norm (Phi_term x n) \<le> a" .
  moreover have "a = \<bar>x\<bar> * ((x\<^sup>2 / 2) ^ n /\<^sub>R fact n)"
    unfolding a_def by (simp add: field_simps)
  ultimately show ?thesis by (rule ord_le_eq_trans)
qed

lemma Phi_term_summable: "summable (Phi_term x)"
proof (rule summable_comparison_test')
  show "summable (\<lambda>n. \<bar>x\<bar> * ((x\<^sup>2 / 2) ^ n /\<^sub>R fact n))"
    by (intro summable_mult summable_exp_generic)
  show "norm (Phi_term x n) \<le> \<bar>x\<bar> * ((x\<^sup>2 / 2) ^ n /\<^sub>R fact n)" for n
    by (rule Phi_term_bound)
qed

lemma Phi_symmetric: "Phi (- x) = 1 - Phi x"
proof -
  have "(\<Sum>n. Phi_term (- x) n) = - (\<Sum>n. Phi_term x n)"
    unfolding Phi_term_minus by (rule suminf_minus[OF Phi_term_summable])
  then show ?thesis by (simp add: Phi_def algebra_simps)
qed

subsection \<open>What the validator lets through\<close>

lemma scalar_error: "scalar parse v = Inl e \<Longrightarrow> e = InvalidParameter"
  by (cases v) (auto split: option.splits)

lemma require_error: "require ok m = Inl e \<Longrightarrow> (\<And>e'. m = Inl e' \<Longrightarrow> e' = InvalidParameter) \<Longrightarrow> e = InvalidParameter"
  by (auto simp: require_def split: sum.splits if_splits)

lemma require_Inr: "require ok m = Inr x \<longleftrightarrow> m = Inr x \<and> ok x"
  by (auto simp: require_def split: sum.splits)

lemma and_then_Inr: "and_then m f = Inr y \<longleftrightarrow> (\<exists>x. m = Inr x \<and> f x = Inr y)"
  by (auto simp: and_then_def split: sum.splits)

lemma and_then_Inl: "and_then m f = Inl e \<longleftrightarrow> m = Inl e \<or> (\<exists>x. m = Inr x \<and> f x = Inl e)"
  by (auto simp: and_then_def split: sum.splits)

lemma validate_error: "validate parse raw = Inl e \<Longrightarrow> e = InvalidParameter"
  unfolding validate_def and_then_Inl
  by (auto dest!: scalar_error require_error simp: require_Inr split: option.splits)

lemma validate_accepts:
  assumes "validate parse raw = Inr (p, c)"
  shows "\<not> refused parse (\<lambda>x. x \<le> 0) (raw_S0 raw)"
    and "\<not> refused parse (\<lambda>x. x \<le> 0) (raw_K raw)"
    and "\<not> refused parse (\<lambda>x. x \<le> 0) (raw_T raw)"
    and "\<not> refused parse (\<lambda>x. False) (raw_r raw)"
    and "\<not> refused parse (\<lambda>x. x < 0) (raw_sigma raw)"
    and "\<And>v. raw_q raw = Some v \<Longrightarrow> \<not> refused parse (\<lambda>x. False) v"
    and "\<not> refused parse (\<lambda>x. x < 1) (raw_steps raw)"
    and "\<not> refused parse (\<lambda>x. x < 1) (raw_N raw)"
  using assms unfolding validate_def and_then_Inr require_Inr refused_def
  by (auto split: option.splits)

subsection \<open>The handlers, step by step\<close>

lemma try_finally_shape: "\<exists>s'. try_catch_finally body h fin s = fin s'"
  by (auto simp: try_catch_finally_def split: prod.split option.split)

lemmas resume_defs = try_catch_finally_def await_json_def throw_def exec_def with_value_def

lemma result_view_simps [simp]:
  "result_view (alert v s) = result_view s"
  "result_view (console_error e s) = result_view s"
  "result_view (s\<lparr>simulateBtn := b\<rparr>) = result_view s"
  "result_view (s\<lparr>fetchBtn := b\<rparr>) = result_view s"
  "result_view (s\<lparr>convergenceBtn := c\<rparr>) = result_view s"
  by (simp_all add: result_view_def alert_def console_error_def)

lemma alerts_simps [simp]:
  "alerts (alert v s) = alerts s @ [v]"
  "alerts (console_error e s) = alerts s"
  "console (console_error e s) = console s @ [e]"
  "console (alert v s) = console s"
  by (simp_all add: alert_def console_error_def)

lemma number_of_Some: "number_of m = Some x \<Longrightarrow> m = Inr (JNum x)"
  by (cases m rule: number_of.cases) simp_all

lemma get_prop_number_obj: "get_prop data name = Inr (JNum x) \<Longrightarrow> \<exists>kvs. data = JObj kvs"
  by (cases data) simp_all

lemma get_prop_obj_total: "\<exists>v. get_prop (JObj kvs) name = Inr v"
  by (simp split: option.split)

lemma fetch_ok_runs:
  assumes price: "get_prop data ''current_price'' = Inr (JNum p)"
    and vol: "get_prop data ''volatility'' = Inr (JNum v)"
  shows "snd (fetch_ok ns ticker data s) = None"
    and "S0_el (fst (fetch_ok ns ticker data s)) = set_value (to_fixed ns 2 p) (S0_el s)"
    and "K_el (fst (fetch_ok ns ticker data s)) = set_value (to_fixed ns 2 p) (K_el s)"
    and "sigma_el (fst (fetch_ok ns ticker data s)) = set_value (to_fixed ns 4 v) (sigma_el s)"
    and "q_el (fst (fetch_ok ns ticker data s)) = map_option (set_value ''0.0'') (q_el s)"
proof -
  from price obtain kvs where obj: "data = JObj kvs"
    using get_prop_number_obj by blast
  obtain rate where rate: "get_prop data ''risk_free_rate'' = Inr rate"
    unfolding obj using get_prop_obj_total by blast
  obtain cur where cur: "get_prop data ''currency'' = Inr cur"
    unfolding obj using get_prop_obj_total by blast
  note evals = fetch_ok_def seq_def exec_def with_value_def price_fixed_def bindE_def Let_def
    price vol rate cur
  show "snd (fetch_ok ns ticker data s) = None" by (simp add: evals)
  show "S0_el (fst (fetch_ok ns ticker data s)) = set_value (to_fixed ns 2 p) (S0_el s)"
    by (simp add: evals)
  show "K_el (fst (fetch_ok ns ticker data s)) = set_value (to_fixed ns 2 p) (K_el s)"
    by (simp add: evals)
  show "sigma_el (fst (fetch_ok ns ticker data s)) = set_value (to_fixed ns 4 v) (sigma_el s)"
    by (simp add: evals)
  show "q_el (fst (fetch_ok ns ticker data s)) = map_option (set_value ''0.0'') (q_el s)"
    by (simp add: evals)
qed

lemma fetch_resume_ok:
  "snd (fetch_ok ns ticker data s) = None \<Longrightarrow>
   fetch_resume ns ticker (Reply True (Some data)) s =
     (fst (fetch_ok ns ticker data s))
       \<lparr>fetchBtn := set_disabled False (set_text ''Fetch Data'' (fetchBtn (fst (fetch_ok ns ticker data s))))\<rparr>"
  by (cases "fetch_ok ns ticker data s") (simp add: fetch_resume_def resume_defs)

lemma fixed_units_nearest: "0 \<le> a \<Longrightarrow> \<bar>real (fixed_units f a) / 10 ^ f - a\<bar> \<le> 1 / (2 * 10 ^ f)"
proof -
  assume a: "0 \<le> a"
  define y where "y = a * 10 ^ f + 1 / 2"
  have "0 \<le> y" using a by (simp add: y_def)
  then have n: "real (fixed_units f a) = of_int \<lfloor>y\<rfloor>"
    by (simp add: fixed_units_def y_def)
  have "of_int \<lfloor>y\<rfloor> \<le> y" "y < of_int \<lfloor>y\<rfloor> + 1" by linarith+
  then have "\<bar>real (fixed_units f a) - a * 10 ^ f\<bar> \<le> 1 / 2"
    unfolding n y_def by linarith
  then have "\<bar>real (fixed_units f a) - a * 10 ^ f\<bar> / 10 ^ f \<le> (1 / 2) / 10 ^ f"
    by (rule divide_right_mono) simp
  moreover have "real (fixed_units f a) / 10 ^ f - a = (real (fixed_units f a) - a * 10 ^ f) / 10 ^ f"
    by (simp add: diff_divide_distrib)
  ultimately show ?thesis by simp
qed

lemma antithetic_hidden_cong:
  "dropdown_view s' = dropdown_view s \<Longrightarrow> antithetic_hidden s' = antithetic_hidden s"
  by (auto simp: antithetic_hidden_def dropdown_view_def method_field_def split: option.splits)

lemma select_values:
  "map dataset_value ((map (remove_class c) xs)[i := add_class c (remove_class c (xs ! i))])
     = map dataset_value xs"
  by (induction xs arbitrary: i) (auto simp: el_defs split: nat.split)

lemma select_option_view [simp]: "dropdown_view (select_option i s) = dropdown_view s"
  by (simp add: dropdown_view_def select_option_def select_values)

lemma select_option_fields [simp]:
  "methodSelectTrigger (select_option i s) = methodSelectTrigger s"
  "methodSelect (select_option i s) = methodSelect s"
  "convergenceBtn (select_option i s) = convergenceBtn s"
  "map dataset_value (customOptions (select_option i s)) = map dataset_value (customOptions s)"
  by (simp_all add: select_option_def select_values)

lemmas option_click_defs = option_click_def option_click_body_def Let_def seq_def exec_def
  throw_def set_trigger_label_def set_method_value_def close_dropdown_def

lemma option_click_incomplete:
  assumes "\<not> dropdown_complete s"
  shows "dropdown_view (option_click i s) = dropdown_view s"
proof (cases "methodSelectTrigger s")
  case None
  then show ?thesis by (simp add: option_click_defs)
next
  case (Some t)
  show ?thesis
  proof (cases "trigger_label t")
    case None
    with Some show ?thesis by (simp add: option_click_defs)
  next
    case (Some l)
    with \<open>methodSelectTrigger s = Some t\<close> assms have "methodSelect s = None"
      by (simp add: dropdown_complete_def)
    with Some \<open>methodSelectTrigger s = Some t\<close> show ?thesis
      by (simp add: option_click_defs dropdown_view_def)
  qed
qed

lemma option_click_complete:
  assumes "dropdown_complete s" and "i < length (customOptions s)"
  shows "methodSelect (option_click i s) =
           map_option (set_value (case dataset_value (customOptions s ! i) of
                                    None \<Rightarrow> ''undefined'' | Some x \<Rightarrow> x)) (methodSelect s)"
    and "convergenceBtn (option_click i s) =
           convergenceBtn (convergence_visibility (dataset_value (customOptions s ! i)) s)"
    and "map dataset_value (customOptions (option_click i s)) = map dataset_value (customOptions s)"
proof -
  from assms(1) obtain t l m where parts:
    "methodSelectTrigger s = Some t" "trigger_label t = Some l" "methodSelect s = Some m"
    by (auto simp: dropdown_complete_def split: option.splits)
  note evals = option_click_defs parts assms(2)
  show "methodSelect (option_click i s) =
           map_option (set_value (case dataset_value (customOptions s ! i) of
                                    None \<Rightarrow> ''undefined'' | Some x \<Rightarrow> x)) (methodSelect s)"
    by (simp add: evals convergence_visibility_def split: option.split)
  show "convergenceBtn (option_click i s) =
           convergenceBtn (convergence_visibility (dataset_value (customOptions s ! i)) s)"
    by (simp add: evals convergence_visibility_def split: option.split)
  show "map dataset_value (customOptions (option_click i s)) = map dataset_value (customOptions s)"
    by (simp add: evals convergence_visibility_def split: option.split)
qed

lemma option_click_establishes:
  assumes "dropdown_complete s" and "i < length (customOptions s)"
  shows "antithetic_hidden (option_click i s)"
proof -
  from assms(1) obtain m where m: "methodSelect s = Some m"
    by (auto simp: dropdown_complete_def split: option.splits)
  show ?thesis
    unfolding antithetic_hidden_def method_field_def option_click_complete [OF assms]
    by (cases "convergenceBtn s")
       (simp_all add: m convergence_visibility_def el_defs split: option.split)
qed

lemma option_click_hidden: "antithetic_hidden (option_click i s) \<or> \<not> antithetic_hidden s"
proof (cases "i < length (customOptions s)")
  case False
  then show ?thesis by (simp add: option_click_def)
next
  case inside: True
  show ?thesis
  proof (cases "dropdown_complete s")
    case False
    then show ?thesis
      using antithetic_hidden_cong [OF option_click_incomplete] by blast
  next
    case True
    then have "antithetic_hidden (option_click i s)"
      using inside by (rule option_click_establishes)
    then show ?thesis ..
  qed
qed

lemma fire_hidden:
  assumes "antithetic_hidden s"
  shows "antithetic_hidden (fire ns ev s)"
proof (cases "\<exists>i. ev = ClickOption i")
  case True
  then obtain i where ev: "ev = ClickOption i" ..
  from option_click_hidden [of i s] assms show ?thesis
    unfolding ev by simp
next
  case False
  then have "ev \<noteq> ClickOption i" for i by blast
  then have "dropdown_view (fire ns ev s) = dropdown_view s"
    by (rule fire_dropdown)
  from antithetic_hidden_cong [OF this] assms show ?thesis by simp
qed

lemma run_hidden: "antithetic_hidden s \<Longrightarrow> antithetic_hidden (run ns evs s)"
  by (induction evs arbitrary: s) (simp_all add: fire_hidden)

lemma convergence_method:
  "get_prop (req_body (snd (convergence_begin s))) ''method'' = Inr (method_field s)"
  by (simp add: convergence_begin_def post_json_def stringify_def convergence_payload_def
        q_field_def method_field_def split: option.split)

lemma offered_not_antithetic:
  assumes "antithetic_hidden s" and "offered (convergenceBtn s)"
  shows "get_prop (req_body (snd (convergence_begin s))) ''method'' \<noteq> Inr (JStr ''antithetic'')"
proof -
  from assms(2) obtain b where b: "convergenceBtn s = Some b" "''hidden'' \<notin> classList b"
    by (auto simp: offered_def split: option.splits)
  with assms(1) have "method_field s \<noteq> JStr ''antithetic''"
    by (auto simp: antithetic_hidden_def)
  then show ?thesis by (simp add: convergence_method)
qed

lemma methods_allowed_cong:
  "dropdown_view s' = dropdown_view s \<Longrightarrow> methods_allowed s' = methods_allowed s"
proof -
  assume view: "dropdown_view s' = dropdown_view s"
  have by_value: "list_all (\<lambda>opt. case dataset_value opt of None \<Rightarrow> False | Some v \<Rightarrow> v \<in> allowed_methods) xs
      = list_all (\<lambda>d. case d of None \<Rightarrow> False | Some v \<Rightarrow> v \<in> allowed_methods) (map dataset_value xs)"
    for xs :: "option_el list"
    by (simp add: list.pred_map comp_def)
  from view show ?thesis
    by (simp add: methods_allowed_def by_value dropdown_view_def)
qed

lemma option_click_allowed: "methods_allowed (option_click i s) \<or> \<not> methods_allowed s"
proof (cases "i < length (customOptions s)")
  case False
  then show ?thesis by (simp add: option_click_def)
next
  case inside: True
  show ?thesis
  proof (cases "dropdown_complete s")
    case False
    then show ?thesis
      using methods_allowed_cong [OF option_click_incomplete] by blast
  next
    case True
    show ?thesis
    proof (cases "methods_allowed s")
      case False
      then show ?thesis ..
    next
      case allowed: True
      then have "case dataset_value (customOptions s ! i) of None \<Rightarrow> False | Some v \<Rightarrow> v \<in> allowed_methods"
        using inside by (simp add: methods_allowed_def list_all_length)
      then obtain v where v: "dataset_value (customOptions s ! i) = Some v" "v \<in> allowed_methods"
        by (auto split: option.splits)
      have view: "dropdown_view (option_click i s) =
          (map_option (set_value v) (methodSelect s),
           map_option classList (convergenceBtn (convergence_visibility (Some v) s)),
           map dataset_value (customOptions s))"
        unfolding dropdown_view_def option_click_complete [OF True inside] v by simp
      have by_value: "list_all (\<lambda>opt. case dataset_value opt of None \<Rightarrow> False | Some v \<Rightarrow> v \<in> allowed_methods) xs
          = list_all (\<lambda>d. case d of None \<Rightarrow> False | Some v \<Rightarrow> v \<in> allowed_methods) (map dataset_value xs)"
        for xs :: "option_el list"
        by (simp add: list.pred_map comp_def)
      from view allowed v(2) have "methods_allowed (option_click i s)"
        by (cases "methodSelect s") (simp_all add: methods_allowed_def by_value dropdown_view_def el_defs)
      then show ?thesis ..
    qed
  qed
qed

lemma fire_allowed:
  assumes "methods_allowed s"
  shows "methods_allowed (fire ns ev s)"
proof (cases "\<exists>i. ev = ClickOption i")
  case True
  then obtain i where ev: "ev = ClickOption i" ..
  from option_click_allowed [of i s] assms show ?thesis
    unfolding ev by simp
next
  case False
  then have "ev \<noteq> ClickOption i" for i by blast
  then have "dropdown_view (fire ns ev s) = dropdown_view s"
    by (rule fire_dropdown)
  from methods_allowed_cong [OF this] assms show ?thesis by simp
qed

lemma run_allowed: "methods_allowed s \<Longrightarrow> methods_allowed (run ns evs s)"
  by (induction evs arbitrary: s) (simp_all add: fire_allowed)

lemma simulate_shape:
  "req_url (snd (simulate_begin s)) = ''/api/simulate'' \<and>
   req_method (snd (simulate_begin s)) = ''POST'' \<and>
   req_body (snd (simulate_begin s)) = JObj (simulate_payload s) \<and>
   map fst (simulate_payload s) = [''S0'', ''K'', ''T'', ''r'', ''sigma'', ''q'', ''steps'', ''method''] \<and>
   get_prop (req_body (snd (simulate_begin s))) ''method'' = Inr (method_field s)"
  by (simp add: simulate_begin_def post_json_def stringify_def simulate_payload_def
        q_field_def method_field_def split: option.split)

lemma allowed_method_field: "methods_allowed s \<Longrightarrow> \<exists>m\<in>allowed_methods. method_field s = JStr m"
  by (cases "methodSelect s") (simp_all add: methods_allowed_def method_field_def allowed_methods_def)

subsection \<open>The concrete page\<close>

lemmas sample_defs = sample_page_def blank_def method_option_def el_defs

lemma sample_price_fixed: "to_fixed ns 2 (23682 / 125) = ''189.46''"
  unfolding to_fixed_def Let_def by (simp add: fixed_units_def decimal.simps)

lemma sample_run:
  "convergenceBtn (run sample_ns [ClickOption 1, ClickOption 2] sample_page)
     = Some (set_text ''Analyze Convergence'' blank)"
  "method_field (run sample_ns [ClickOption 1, ClickOption 2] sample_page) = JStr ''control_variate''"
  by (simp_all add: option_click_defs convergence_visibility_def select_option_def method_field_def
        sample_defs)

section \<open>The claims\<close>

text \<open>
  C1. Convergence analysis is never offered for the antithetic method. On a page that is
  loaded with the convergence button hidden if its method is \<^verbatim>\<open>antithetic\<close>, after
  every run of events: the button is hidden whenever the method a request would carry
  is \<^verbatim>\<open>antithetic\<close>; whenever the button is offered, the request that a click on it
  sends carries another method; and on a page with a complete dropdown, selecting an
  option whose value is \<^verbatim>\<open>standard\<close> or \<^verbatim>\<open>control_variate\<close> stores that method and
  takes the class \<^verbatim>\<open>hidden\<close> off the button. Whatever the page was before, once an
  option has been selected on a complete dropdown the button is hidden if the method is
  \<^verbatim>\<open>antithetic\<close>.
\<close>

theorem convergence_never_antithetic:
  assumes "antithetic_hidden init"
  shows "antithetic_hidden (run ns evs init) \<and>
         (offered (convergenceBtn (run ns evs init)) \<longrightarrow>
            get_prop (req_body (snd (convergence_begin (run ns evs init)))) ''method''
              \<noteq> Inr (JStr ''antithetic'')) \<and>
         (dropdown_complete s \<and> i < length (customOptions s) \<and>
          dataset_value (customOptions s ! i) = Some v \<and> v \<in> {''standard'', ''control_variate''} \<longrightarrow>
            method_field (option_click i s) = JStr v \<and>
            convergenceBtn (option_click i s) = map_option (remove_class ''hidden'') (convergenceBtn s)) \<and>
         (dropdown_complete s \<and> i < length (customOptions s) \<longrightarrow>
            antithetic_hidden (option_click i s))"
proof -
  have inv: "antithetic_hidden (run ns evs init)"
    using assms by (rule run_hidden)
  moreover have "get_prop (req_body (snd (convergence_begin (run ns evs init)))) ''method''
        \<noteq> Inr (JStr ''antithetic'')" if "offered (convergenceBtn (run ns evs init))"
    using inv that by (rule offered_not_antithetic)
  moreover have "method_field (option_click i s) = JStr v \<and>
      convergenceBtn (option_click i s) = map_option (remove_class ''hidden'') (convergenceBtn s)"
    if complete: "dropdown_complete s" and inside: "i < length (customOptions s)"
      and v: "dataset_value (customOptions s ! i) = Some v"
      and other: "v \<in> {''standard'', ''control_variate''}"
  proof -
    from other have "v \<noteq> ''antithetic''" by auto
    then have "convergenceBtn (option_click i s) = map_option (remove_class ''hidden'') (convergenceBtn s)"
      unfolding option_click_complete(2) [OF complete inside] v
      by (cases "convergenceBtn s") (simp_all add: convergence_visibility_def)
    moreover from complete obtain m where "methodSelect s = Some m"
      by (auto simp: dropdown_complete_def split: option.splits)
    then have "method_field (option_click i s) = JStr v"
      unfolding method_field_def option_click_complete(1) [OF complete inside] v
      by (simp add: set_value_def)
    ultimately show ?thesis by simp
  qed
  moreover have "antithetic_hidden (option_click i s)"
    if "dropdown_complete s" and "i < length (customOptions s)"
    using that by (rule option_click_establishes)
  ultimately show ?thesis by blast
qed

theorem convergence_never_antithetic_witness:
  "antithetic_hidden sample_page \<and>
   offered (convergenceBtn (run sample_ns [ClickOption 1, ClickOption 2] sample_page)) \<and>
   get_prop (req_body (snd (convergence_begin (run sample_ns [ClickOption 1, ClickOption 2] sample_page))))
     ''method'' \<noteq> Inr (JStr ''antithetic'') \<and>
   dropdown_complete (option_click 1 sample_page) \<and>
   dataset_value (customOptions (option_click 1 sample_page) ! 2) = Some ''control_variate'' \<and>
   convergenceBtn (option_click 1 sample_page)
     = Some (add_class ''hidden'' (set_text ''Analyze Convergence'' blank)) \<and>
   convergenceBtn (option_click 2 (option_click 1 sample_page))
     = Some (set_text ''Analyze Convergence'' blank) \<and>
   antithetic_hidden (option_click 2 (option_click 1 sample_page))"
proof -
  have init: "antithetic_hidden sample_page"
    by (simp add: antithetic_hidden_def method_field_def sample_defs)
  have shown: "offered (convergenceBtn (run sample_ns [ClickOption 1, ClickOption 2] sample_page))"
    unfolding sample_run by (simp add: offered_def el_defs blank_def)
  have hidden: "convergenceBtn (option_click 1 sample_page)
      = Some (add_class ''hidden'' (set_text ''Analyze Convergence'' blank))"
    and complete: "dropdown_complete (option_click 1 sample_page)"
    and third: "dataset_value (customOptions (option_click 1 sample_page) ! 2) = Some ''control_variate''"
    and size: "2 < length (customOptions (option_click 1 sample_page))"
    by (simp_all add: option_click_defs convergence_visibility_def select_option_def
          dropdown_complete_def sample_defs)
  from convergence_never_antithetic [OF init, of sample_ns "[ClickOption 1, ClickOption 2]"
      "option_click 1 sample_page" 2 "''control_variate''"]
    init shown hidden complete third size
  show ?thesis by (simp add: el_defs blank_def)
qed

text \<open>
  C2, as amended. A simulate response that is not ok and whose body parses to a JSON
  value other than \<^verbatim>\<open>null\<close> (so that \<^verbatim>\<open>data.error\<close> can be read) is answered by
  \<^verbatim>\<open>alert(data.error)\<close>; and for every simulate response that is not ok, whatever its
  body, nothing that \<^verbatim>\<open>displayResults\<close> writes (results section, convergence section,
  the six result fields, the charts) changes: a failed request produces no partial
  result.
\<close>

theorem failed_simulation_shows_error:
  assumes "get_prop data ''error'' = Inr err"
  shows "alerts (simulate_resume ns (Reply False (Some data)) s) = alerts s @ [err] \<and>
         result_view (simulate_resume ns (Reply False (Some data)) s) = result_view s \<and>
         result_view (simulate_resume ns (Reply False body) s) = result_view s"
proof -
  have "keeps result_view
          (await_json (Reply False body)
             (\<lambda>ok data. if ok then displayResults ns data else alert_error data))" for body
    by (cases body) (simp_all add: await_json_def keeps_throw alert_error_keeps)
  then have "result_view (simulate_resume ns (Reply False body) s) = result_view s" for body
    unfolding simulate_resume_def by (rule keeps_try) simp_all
  moreover have "alerts (simulate_resume ns (Reply False (Some data)) s) = alerts s @ [err]"
    using assms by (simp add: simulate_resume_def alert_error_def resume_defs)
  ultimately show ?thesis by simp
qed

theorem failed_simulation_shows_error_witness:
  "get_prop sample_error ''error'' = Inr (JStr ''S0 must be positive'') \<and>
   alerts (simulate_resume sample_ns (Reply False (Some sample_error)) sample_page)
     = [JStr ''S0 must be positive''] \<and>
   result_view (simulate_resume sample_ns (Reply False (Some sample_error)) sample_page)
     = result_view sample_page"
proof -
  have e: "get_prop sample_error ''error'' = Inr (JStr ''S0 must be positive'')"
    by (simp add: sample_error_def)
  have "alerts sample_page = []" by (simp add: sample_page_def)
  with failed_simulation_shows_error [OF e, of sample_ns sample_page] e show ?thesis by simp
qed

text \<open>
  C2 as first stated spoke of every response that is not ok. The handler awaits
  \<^verbatim>\<open>response.json()\<close> (line 133) before it reads \<^verbatim>\<open>response.ok\<close>, so a response that
  is not ok and whose body is not JSON, or is \<^verbatim>\<open>null\<close>, throws before
  \<^verbatim>\<open>alert(data.error)\<close> is reached: on the concrete page no alert is raised, and the
  exception is in the console only.
\<close>

theorem failed_simulation_silent_counterexample:
  "alerts (simulate_resume sample_ns (Reply False None) sample_page) = [] \<and>
   console (simulate_resume sample_ns (Reply False None) sample_page) = [BodyNotJson] \<and>
   alerts (simulate_resume sample_ns (Reply False (Some JNull)) sample_page) = [] \<and>
   console (simulate_resume sample_ns (Reply False (Some JNull)) sample_page) = [TypeError]"
proof -
  have start: "alerts sample_page = []" "console sample_page = []"
    by (simp_all add: sample_page_def)
  have "alerts (simulate_resume sample_ns (Reply False None) sample_page) = alerts sample_page"
    and "console (simulate_resume sample_ns (Reply False None) sample_page)
          = console sample_page @ [BodyNotJson]"
    by (simp_all add: simulate_resume_def resume_defs)
  moreover
  have "alerts (simulate_resume sample_ns (Reply False (Some JNull)) sample_page) = alerts sample_page"
    and "console (simulate_resume sample_ns (Reply False (Some JNull)) sample_page)
          = console sample_page @ [TypeError]"
    by (simp_all add: simulate_resume_def alert_error_def resume_defs)
  ultimately show ?thesis by (simp add: start)
qed

text \<open>
  C3. What the handlers do with a thrown failure. When \<^verbatim>\<open>fetch\<close> rejects or the body
  is not JSON, the simulate and the convergence handler call \<^verbatim>\<open>console.error\<close> and
  nothing else: no alert is raised. The handler for the stock data, on the same failure,
  alerts "Failed to connect to server".
\<close>

theorem thrown_failure_not_alerted:
  "alerts (simulate_resume ns NoReply s) = alerts s \<and>
   console (simulate_resume ns NoReply s) = console s @ [FetchRejected] \<and>
   alerts (simulate_resume ns (Reply ok None) s) = alerts s \<and>
   alerts (convergence_resume NoReply s) = alerts s \<and>
   alerts (convergence_resume (Reply ok None) s) = alerts s \<and>
   alerts (fetch_resume ns ticker NoReply s) = alerts s @ [JStr ''Failed to connect to server'']"
  by (simp add: simulate_resume_def convergence_resume_def fetch_resume_def resume_defs)

text \<open>
  C4. On a page whose options and method input carry only the methods \<^verbatim>\<open>standard\<close>,
  \<^verbatim>\<open>antithetic\<close> and \<^verbatim>\<open>control_variate\<close>, after every run of events the request of the
  submit handler is posted to \<^verbatim>\<open>/api/simulate\<close>, its body is a JSON object with
  exactly the eight properties S0, K, T, r, sigma, q, steps and method, and its method
  is one of the three.
\<close>

theorem simulate_request_shape:
  assumes "methods_allowed init"
  shows "req_url (snd (simulate_begin (run ns evs init))) = ''/api/simulate'' \<and>
         req_method (snd (simulate_begin (run ns evs init))) = ''POST'' \<and>
         req_body (snd (simulate_begin (run ns evs init))) = JObj (simulate_payload (run ns evs init)) \<and>
         map fst (simulate_payload (run ns evs init))
           = [''S0'', ''K'', ''T'', ''r'', ''sigma'', ''q'', ''steps'', ''method''] \<and>
         (\<exists>m\<in>allowed_methods.
            get_prop (req_body (snd (simulate_begin (run ns evs init)))) ''method'' = Inr (JStr m))"
proof -
  from assms have "methods_allowed (run ns evs init)" by (rule run_allowed)
  then have "\<exists>m\<in>allowed_methods. method_field (run ns evs init) = JStr m"
    by (rule allowed_method_field)
  then obtain m where m: "m \<in> allowed_methods" "method_field (run ns evs init) = JStr m" ..
  note shape = simulate_shape [of "run ns evs init"]
  from shape have "get_prop (req_body (snd (simulate_begin (run ns evs init)))) ''method''
      = Inr (method_field (run ns evs init))" by blast
  with m have "\<exists>m\<in>allowed_methods.
      get_prop (req_body (snd (simulate_begin (run ns evs init)))) ''method'' = Inr (JStr m)"
    by auto
  with shape show ?thesis by blast
qed

theorem simulate_request_shape_witness:
  "methods_allowed sample_page \<and>
   req_url (snd (simulate_begin (run sample_ns [ClickOption 1, ClickOption 2] sample_page)))
     = ''/api/simulate'' \<and>
   map fst (simulate_payload (run sample_ns [ClickOption 1, ClickOption 2] sample_page))
     = [''S0'', ''K'', ''T'', ''r'', ''sigma'', ''q'', ''steps'', ''method''] \<and>
   ''control_variate'' \<in> allowed_methods \<and>
   get_prop (req_body (snd (simulate_begin (run sample_ns [ClickOption 1, ClickOption 2] sample_page))))
     ''method'' = Inr (JStr ''control_variate'')"
proof -
  have init: "methods_allowed sample_page"
    by (simp add: methods_allowed_def allowed_methods_def sample_defs)
  from simulate_request_shape [OF init, of sample_ns "[ClickOption 1, ClickOption 2]"]
    simulate_shape [of "run sample_ns [ClickOption 1, ClickOption 2] sample_page"] init
  show ?thesis unfolding sample_run by (simp add: allowed_methods_def)
qed

text \<open>
  C5. The request of the convergence handler is posted to \<^verbatim>\<open>/api/convergence\<close>, and its
  body is a JSON object with exactly the seven properties S0, K, T, r, sigma, q and
  method, in this order; reading \<^verbatim>\<open>steps\<close> from it gives \<^verbatim>\<open>undefined\<close>.
\<close>

theorem convergence_request_shape:
  "req_url (snd (convergence_begin s)) = ''/api/convergence'' \<and>
   req_method (snd (convergence_begin s)) = ''POST'' \<and>
   req_body (snd (convergence_begin s)) = JObj (convergence_payload s) \<and>
   map fst (convergence_payload s) = [''S0'', ''K'', ''T'', ''r'', ''sigma'', ''q'', ''method''] \<and>
   get_prop (req_body (snd (convergence_begin s))) ''steps'' = Inr JUndefined"
  by (simp add: convergence_begin_def post_json_def stringify_def convergence_payload_def
        q_field_def method_field_def split: option.split)

text \<open>
  C6. The yield q defaults to zero. On a page without the q input, the simulate and the
  convergence request both carry the number 0 as q; and a successful fetch of stock data
  (the response is ok and gives numbers for price and volatility) sets the q input, if
  there is one, to "0.0".
\<close>

theorem yield_defaults_to_zero:
  "(q_el s = None \<longrightarrow>
      get_prop (req_body (snd (simulate_begin s))) ''q'' = Inr (JNum 0) \<and>
      get_prop (req_body (snd (convergence_begin s))) ''q'' = Inr (JNum 0)) \<and>
   (number_of (get_prop data ''current_price'') \<noteq> None \<and>
    number_of (get_prop data ''volatility'') \<noteq> None \<longrightarrow>
      q_el (fetch_resume ns ticker (Reply True (Some data)) s') = map_option (set_value ''0.0'') (q_el s'))"
proof -
  have "get_prop (req_body (snd (simulate_begin s))) ''q'' = Inr (JNum 0)"
    and "get_prop (req_body (snd (convergence_begin s))) ''q'' = Inr (JNum 0)"
    if "q_el s = None"
    using that
    by (simp_all add: simulate_begin_def convergence_begin_def post_json_def stringify_def
          simulate_payload_def convergence_payload_def q_field_def method_field_def
          split: option.split)
  moreover have "q_el (fetch_resume ns ticker (Reply True (Some data)) s') = map_option (set_value ''0.0'') (q_el s')"
    if "number_of (get_prop data ''current_price'') = Some p"
      and "number_of (get_prop data ''volatility'') = Some v" for p v
  proof -
    note runs = fetch_ok_runs [OF number_of_Some [OF that(1)] number_of_Some [OF that(2)]]
    show ?thesis by (simp add: fetch_resume_ok [OF runs(1)] runs)
  qed
  ultimately show ?thesis by blast
qed

theorem yield_defaults_to_zero_witness:
  "q_el (sample_page\<lparr>q_el := None\<rparr>) = None \<and>
   get_prop (req_body (snd (simulate_begin (sample_page\<lparr>q_el := None\<rparr>)))) ''q'' = Inr (JNum 0) \<and>
   get_prop (req_body (snd (convergence_begin (sample_page\<lparr>q_el := None\<rparr>)))) ''q'' = Inr (JNum 0) \<and>
   number_of (get_prop sample_quote ''current_price'') \<noteq> None \<and>
   number_of (get_prop sample_quote ''volatility'') \<noteq> None \<and>
   map_option el_value (q_el (fetch_resume sample_ns ''AAPL'' (Reply True (Some sample_quote)) sample_page))
     = Some ''0.0''"
proof -
  have "q_el sample_page = Some (set_value ''0.01'' blank)" by (simp add: sample_page_def)
  moreover have "number_of (get_prop sample_quote ''current_price'') \<noteq> None"
    and "number_of (get_prop sample_quote ''volatility'') \<noteq> None"
    by (simp_all add: sample_quote_def)
  ultimately show ?thesis
    using yield_defaults_to_zero [of "sample_page\<lparr>q_el := None\<rparr>" sample_quote sample_ns "''AAPL''" sample_page]
    by (simp add: el_defs)
qed

text \<open>
  C7. Put-call parity of the analytical solver, over the real numbers: for valid
  parameters, whatever the policy for the degenerate case, the solver either gives a
  call and a put price with Call - Put = S0 exp(-q T) - K exp(-r T), or it refuses with
  InvalidParameter, which happens only under the rejecting policy at volatility zero.
\<close>

theorem put_call_parity:
  assumes "valid_parameters p"
  shows "case black_scholes pol p of
           Inr (c, pt) \<Rightarrow> c - pt = spot p * exp (- carry p * maturity p) - strike p * exp (- rate p * maturity p)
         | Inl e \<Rightarrow> e = InvalidParameter \<and> pol = Reject \<and> volatility p = 0"
proof (cases "volatility p * sqrt (maturity p) = 0")
  case True
  with assms have "volatility p = 0" by (simp add: valid_parameters_def)
  with True show ?thesis
    by (cases pol) (simp_all add: black_scholes_def intrinsic_def Let_def max_def)
next
  case False
  have "bs_call p - bs_put p =
          spot p * exp (- carry p * maturity p) - strike p * exp (- rate p * maturity p)"
    by (simp add: bs_call_def bs_put_def Phi_symmetric algebra_simps)
  with False show ?thesis by (simp add: black_scholes_def)
qed

theorem put_call_parity_witness:
  "valid_parameters sample_parameters \<and>
   black_scholes Reject sample_parameters = Inr (bs_call sample_parameters, bs_put sample_parameters) \<and>
   bs_call sample_parameters - bs_put sample_parameters = 100 - 100 * exp (- (5 / 100))"
proof -
  have v: "valid_parameters sample_parameters"
    by (simp add: valid_parameters_def sample_parameters_def)
  have b: "black_scholes Reject sample_parameters = Inr (bs_call sample_parameters, bs_put sample_parameters)"
    by (simp add: black_scholes_def sample_parameters_def)
  from put_call_parity [OF v, of Reject] b v show ?thesis
    by (simp add: sample_parameters_def)
qed

text \<open>
  C8. The validator refuses bad input: if S0, K or T is not a finite real number or is
  not positive, if sigma is not one or is negative, if steps or N is not one or is below
  1, or if r or a given q is not one, then validation fails with InvalidParameter, and so
  does the analytical price: no price is produced.
\<close>

theorem validator_rejects:
  assumes "refused parse (\<lambda>x. x \<le> 0) (raw_S0 raw) \<or>
           refused parse (\<lambda>x. x \<le> 0) (raw_K raw) \<or>
           refused parse (\<lambda>x. x \<le> 0) (raw_T raw) \<or>
           refused parse (\<lambda>x. False) (raw_r raw) \<or>
           refused parse (\<lambda>x. x < 0) (raw_sigma raw) \<or>
           (\<exists>v. raw_q raw = Some v \<and> refused parse (\<lambda>x. False) v) \<or>
           refused parse (\<lambda>x. x < 1) (raw_steps raw) \<or>
           refused parse (\<lambda>x. x < 1) (raw_N raw)"
  shows "validate parse raw = Inl InvalidParameter \<and>
         analytical_price parse pol raw = Inl InvalidParameter"
proof (cases "validate parse raw")
  case (Inl e)
  then have "validate parse raw = Inl InvalidParameter"
    using validate_error by blast
  then show ?thesis by (simp add: analytical_price_def and_then_def)
next
  case (Inr pc)
  then obtain p c where "validate parse raw = Inr (p, c)" by (cases pc) simp
  from validate_accepts [OF this] assms show ?thesis by blast
qed

theorem validator_rejects_witness:
  "refused sample_parse (\<lambda>x. x \<le> 0) (raw_S0 sample_raw) \<and>
   validate sample_parse sample_raw = Inl InvalidParameter \<and>
   analytical_price sample_parse IntrinsicLimit sample_raw = Inl InvalidParameter"
proof -
  have zero: "refused sample_parse (\<lambda>x. x \<le> 0) (raw_S0 sample_raw)"
    by (simp add: refused_def sample_parse_def sample_raw_def)
  with validator_rejects [of sample_parse sample_raw IntrinsicLimit] show ?thesis by blast
qed

text \<open>
  C9. Every request handler restores its button. Whatever the reply (an ok response, an
  error response, a body that is not JSON, a rejected fetch) and whatever the page has
  become in the meantime, after the continuation of the handler its button is enabled
  and carries its idle label: "Fetch Data", "Run Simulation", "Analyze Convergence" (on
  a page that has the convergence button). The one way a handler ends without a reply,
  the empty ticker, leaves the page as it was and sends nothing.
\<close>

theorem buttons_restored:
  "idle ''Fetch Data'' (fetchBtn (fetch_resume ns ticker rep s)) \<and>
   idle ''Run Simulation'' (simulateBtn (simulate_resume ns rep s)) \<and>
   (case convergenceBtn s of
      None \<Rightarrow> convergenceBtn (convergence_resume rep s) = None
    | Some b \<Rightarrow> (case convergenceBtn (convergence_resume rep s) of
                   None \<Rightarrow> False
                 | Some b' \<Rightarrow> idle ''Analyze Convergence'' b')) \<and>
   (toUpperCase (el_value (tickerInput s)) = [] \<longrightarrow> fetch_begin s = (s, None))"
proof -
  obtain s1 where "fetch_resume ns ticker rep s =
      s1\<lparr>fetchBtn := set_disabled False (set_text ''Fetch Data'' (fetchBtn s1))\<rparr>"
    unfolding fetch_resume_def using try_finally_shape by blast
  then have fetch: "idle ''Fetch Data'' (fetchBtn (fetch_resume ns ticker rep s))"
    by (simp add: idle_def el_defs)
  obtain s2 where "simulate_resume ns rep s =
      s2\<lparr>simulateBtn := set_disabled False (set_text ''Run Simulation'' (simulateBtn s2))\<rparr>"
    unfolding simulate_resume_def using try_finally_shape by blast
  then have simulate: "idle ''Run Simulation'' (simulateBtn (simulate_resume ns rep s))"
    by (simp add: idle_def el_defs)
  obtain s3 where s3: "convergence_resume rep s =
      s3\<lparr>convergenceBtn :=
           map_option (\<lambda>b. set_disabled False (set_text ''Analyze Convergence'' b)) (convergenceBtn s3)\<rparr>"
    unfolding convergence_resume_def using try_finally_shape by blast
  have "dropdown_view (convergence_resume rep s) = dropdown_view s"
    by (rule convergence_resume_dropdown)
  then have same: "convergenceBtn s3 = None \<longleftrightarrow> convergenceBtn s = None"
    unfolding s3
    by (cases "convergenceBtn s3"; cases "convergenceBtn s") (simp_all add: dropdown_view_def)
  have convergence: "case convergenceBtn s of
      None \<Rightarrow> convergenceBtn (convergence_resume rep s) = None
    | Some b \<Rightarrow> (case convergenceBtn (convergence_resume rep s) of
                   None \<Rightarrow> False
                 | Some b' \<Rightarrow> idle ''Analyze Convergence'' b')"
    using same unfolding s3 by (auto simp: idle_def el_defs split: option.splits)
  have early: "toUpperCase (el_value (tickerInput s)) = [] \<longrightarrow> fetch_begin s = (s, None)"
    by (simp add: fetch_begin_def)
  from fetch simulate convergence early show ?thesis by blast
qed

theorem buttons_restored_witness:
  "toUpperCase (el_value (tickerInput (edit Ticker '''' sample_page))) = [] \<and>
   fetch_begin (edit Ticker '''' sample_page) = (edit Ticker '''' sample_page, None) \<and>
   idle ''Fetch Data'' (fetchBtn (fetch_resume sample_ns ''AAPL'' NoReply (edit Ticker '''' sample_page))) \<and>
   idle ''Run Simulation'' (simulateBtn (simulate_resume sample_ns NoReply (edit Ticker '''' sample_page)))"
  using buttons_restored [of sample_ns "''AAPL''" NoReply "edit Ticker '''' sample_page"]
  by (simp add: toUpperCase_def sample_defs)

text \<open>
  C10. After a successful fetch of stock data (the response is ok and gives numbers for
  price and volatility), the strike input and the spot input hold the same text, the
  price with two digits after the point as \<^verbatim>\<open>toFixed(2)\<close> prints it; the number
  printed is within half a hundredth of the absolute value of the price.
\<close>

theorem strike_follows_spot:
  assumes "number_of (get_prop data ''current_price'') = Some p"
    and "number_of (get_prop data ''volatility'') = Some v"
  shows "el_value (S0_el (fetch_resume ns ticker (Reply True (Some data)) s)) = to_fixed ns 2 p \<and>
         el_value (K_el (fetch_resume ns ticker (Reply True (Some data)) s)) = to_fixed ns 2 p \<and>
         \<bar>real (fixed_units 2 \<bar>p\<bar>) / 100 - \<bar>p\<bar>\<bar> \<le> 1 / 200"
proof -
  note runs = fetch_ok_runs [OF number_of_Some [OF assms(1)] number_of_Some [OF assms(2)]]
  have "\<bar>real (fixed_units 2 \<bar>p\<bar>) / 10 ^ 2 - \<bar>p\<bar>\<bar> \<le> 1 / (2 * 10 ^ 2)"
    by (rule fixed_units_nearest) simp
  then show ?thesis
    by (simp add: fetch_resume_ok [OF runs(1)] runs set_value_def)
qed

theorem strike_follows_spot_witness:
  "number_of (get_prop sample_quote ''current_price'') = Some (189456 / 1000) \<and>
   number_of (get_prop sample_quote ''volatility'') = Some (24317 / 100000) \<and>
   el_value (S0_el (fetch_resume sample_ns ''AAPL'' (Reply True (Some sample_quote)) sample_page)) = ''189.46'' \<and>
   el_value (K_el (fetch_resume sample_ns ''AAPL'' (Reply True (Some sample_quote)) sample_page)) = ''189.46''"
proof -
  have p: "number_of (get_prop sample_quote ''current_price'') = Some (189456 / 1000)"
    and v: "number_of (get_prop sample_quote ''volatility'') = Some (24317 / 100000)"
    by (simp_all add: sample_quote_def)
  from strike_follows_spot [OF p v, of sample_ns "''AAPL''" sample_page] p v show ?thesis
    by (simp add: sample_price_fixed)
qed

end
